theory Spec2Isabelle
  imports Main "HOL-Library.Word"
begin

unbundle bit_operations_syntax

section \<open>Binary framing: PacketBuilder and PacketReader (packet.cpp)\<close>

text \<open>
  \<^verbatim>\<open>size_t\<close> is a 64-bit unsigned integer: additions such as
  \<^verbatim>\<open>position_ + size\<close> wrap around modulo \<open>2 ^ 64\<close>.  Bytes are \<open>8 word\<close>,
  a buffer (\<^verbatim>\<open>std::vector<uint8_t>\<close>, \<^verbatim>\<open>Span<const uint8_t>\<close>) is a list of bytes.
\<close>

type_synonym uint8_t = "8 word"
type_synonym uint16_t = "16 word"
type_synonym uint32_t = "32 word"
type_synonym uint64_t = "64 word"
type_synonym size_t = "64 word"

datatype error = runtime_error string | length_error string

subsection \<open>Object representations\<close>

text \<open>
  \<^verbatim>\<open>write(&value, sizeof(value))\<close> copies the object representation of an integer
  into the buffer and \<^verbatim>\<open>read(&value, sizeof(value))\<close> copies it back.  The host
  byte order is taken to be little-endian: \<open>le_bytes n w\<close> are the \<open>n\<close> bytes of \<open>w\<close> in
  memory order, \<open>le_word\<close> is the integer that a memory image holds.
\<close>

fun le_bytes :: "nat \<Rightarrow> 'a::len word \<Rightarrow> uint8_t list" where
  "le_bytes 0 w = []"
| "le_bytes (Suc n) w = ucast w # le_bytes n (drop_bit 8 w)"

fun le_word :: "uint8_t list \<Rightarrow> 'a::len word" where
  "le_word [] = 0"
| "le_word (b # bs) = ucast b OR push_bit 8 (le_word bs)"

text \<open>\<^verbatim>\<open>reinterpret_cast\<close> between \<^verbatim>\<open>char\<close> and \<^verbatim>\<open>uint8_t\<close>.\<close>

definition byte_of_char :: "char \<Rightarrow> uint8_t" where
  "byte_of_char c = of_nat (of_char c)"

definition char_of_byte :: "uint8_t \<Rightarrow> char" where
  "char_of_byte b = char_of (unat b)"

subsection \<open>PacketBuilder\<close>

text \<open>
  The builder is its byte vector (the capacity of the vector is not observable in the
  bytes).  Member names are written without the trailing underscore of the source.
\<close>

record PacketBuilder =
  buffer :: "uint8_t list"

definition PacketBuilder_new :: PacketBuilder where
  "PacketBuilder_new = \<lparr>buffer = []\<rparr>"

text \<open>
  \<^verbatim>\<open>write(const void*, size_t)\<close>, \<^verbatim>\<open>write(Span)\<close> and the template
  \<^verbatim>\<open>write<T>(const T&)\<close>: the bytes handed over are appended at the end.
\<close>

definition PacketBuilder_write :: "PacketBuilder \<Rightarrow> uint8_t list \<Rightarrow> PacketBuilder" where
  "PacketBuilder_write b bytes = b\<lparr>buffer := buffer b @ bytes\<rparr>"

text \<open>\<^verbatim>\<open>write(const std::string&)\<close>\<close>

definition PacketBuilder_write_string :: "PacketBuilder \<Rightarrow> string \<Rightarrow> PacketBuilder" where
  "PacketBuilder_write_string b str = b\<lparr>buffer := buffer b @ map byte_of_char str\<rparr>"

definition writeUint8 :: "PacketBuilder \<Rightarrow> uint8_t \<Rightarrow> PacketBuilder" where
  "writeUint8 b v = b\<lparr>buffer := buffer b @ [v]\<rparr>"

definition writeUint16 :: "PacketBuilder \<Rightarrow> uint16_t \<Rightarrow> PacketBuilder" where
  "writeUint16 b v = PacketBuilder_write b (le_bytes 2 v)"

definition writeUint32 :: "PacketBuilder \<Rightarrow> uint32_t \<Rightarrow> PacketBuilder" where
  "writeUint32 b v = PacketBuilder_write b (le_bytes 4 v)"

definition writeUint64 :: "PacketBuilder \<Rightarrow> uint64_t \<Rightarrow> PacketBuilder" where
  "writeUint64 b v = PacketBuilder_write b (le_bytes 8 v)"

text \<open>\<^verbatim>\<open>static_cast<uint32_t>(str.size())\<close> truncates the length to 32 bits.\<close>

definition writeString :: "PacketBuilder \<Rightarrow> string \<Rightarrow> PacketBuilder" where
  "writeString b str = PacketBuilder_write_string (writeUint32 b (of_nat (length str))) str"

definition PacketBuilder_clear :: "PacketBuilder \<Rightarrow> PacketBuilder" where
  "PacketBuilder_clear b = b\<lparr>buffer := []\<rparr>"

definition PacketBuilder_size :: "PacketBuilder \<Rightarrow> size_t" where
  "PacketBuilder_size b = of_nat (length (buffer b))"

definition PacketBuilder_empty :: "PacketBuilder \<Rightarrow> bool" where
  "PacketBuilder_empty b \<longleftrightarrow> buffer b = []"

definition PacketBuilder_data :: "PacketBuilder \<Rightarrow> uint8_t list" where
  "PacketBuilder_data b = buffer b"

subsection \<open>PacketReader\<close>

record PacketReader =
  rdata :: "uint8_t list"
  rposition :: size_t

definition PacketReader_new :: "uint8_t list \<Rightarrow> PacketReader" where
  "PacketReader_new packetData = \<lparr>rdata = packetData, rposition = 0\<rparr>"

definition PacketReader_size :: "PacketReader \<Rightarrow> size_t" where
  "PacketReader_size r = of_nat (length (rdata r))"

definition remaining :: "PacketReader \<Rightarrow> size_t" where
  "remaining r = PacketReader_size r - rposition r"

definition PacketReader_position :: "PacketReader \<Rightarrow> size_t" where
  "PacketReader_position r = rposition r"

definition atEnd :: "PacketReader \<Rightarrow> bool" where
  "atEnd r \<longleftrightarrow> rposition r \<ge> PacketReader_size r"

text \<open>
  \<^verbatim>\<open>memcpy(buffer, data_.data() + position_, size)\<close>: the bytes of the span from the
  cursor on.  Where the source would copy from beyond the span (undefined behaviour in
  C++), the model copies the bytes that exist.
\<close>

definition memcpy_from :: "uint8_t list \<Rightarrow> size_t \<Rightarrow> size_t \<Rightarrow> uint8_t list" where
  "memcpy_from bytes pos n = take (unat n) (drop (unat pos) bytes)"

text \<open>
  \<^verbatim>\<open>read(void* buffer, size_t size)\<close>: \<open>None\<close> is the result \<^verbatim>\<open>false\<close> (the
  caller's buffer is untouched), \<open>Some bytes\<close> is \<^verbatim>\<open>true\<close> with the bytes copied
  out.  The comparison is on \<^verbatim>\<open>size_t\<close>, the sum wraps.
\<close>

definition PacketReader_read :: "PacketReader \<Rightarrow> size_t \<Rightarrow> uint8_t list option \<times> PacketReader" where
  "PacketReader_read r n =
     (if rposition r + n > PacketReader_size r then (None, r)
      else (Some (memcpy_from (rdata r) (rposition r) n), r\<lparr>rposition := rposition r + n\<rparr>))"

text \<open>
  The typed reads throw \<^verbatim>\<open>std::runtime_error\<close>; the result is the error or the
  value, paired with the reader as the call leaves it.
\<close>

definition readUint8 :: "PacketReader \<Rightarrow> (error + uint8_t) \<times> PacketReader" where
  "readUint8 r =
     (if rposition r \<ge> PacketReader_size r
      then (Inl (runtime_error ''Not enough data to read uint8''), r)
      else (Inr (rdata r ! unat (rposition r)), r\<lparr>rposition := rposition r + 1\<rparr>))"

definition readUint16 :: "PacketReader \<Rightarrow> (error + uint16_t) \<times> PacketReader" where
  "readUint16 r =
     (case PacketReader_read r 2 of
        (None, r') \<Rightarrow> (Inl (runtime_error ''Not enough data to read uint16''), r')
      | (Some bytes, r') \<Rightarrow> (Inr (le_word bytes), r'))"

definition readUint32 :: "PacketReader \<Rightarrow> (error + uint32_t) \<times> PacketReader" where
  "readUint32 r =
     (case PacketReader_read r 4 of
        (None, r') \<Rightarrow> (Inl (runtime_error ''Not enough data to read uint32''), r')
      | (Some bytes, r') \<Rightarrow> (Inr (le_word bytes), r'))"

definition readUint64 :: "PacketReader \<Rightarrow> (error + uint64_t) \<times> PacketReader" where
  "readUint64 r =
     (case PacketReader_read r 8 of
        (None, r') \<Rightarrow> (Inl (runtime_error ''Not enough data to read uint64''), r')
      | (Some bytes, r') \<Rightarrow> (Inr (le_word bytes), r'))"

text \<open>
  \<^verbatim>\<open>std::string(const char*, size_t n)\<close> throws \<^verbatim>\<open>std::length_error\<close>
  when \<open>n\<close> exceeds \<^verbatim>\<open>max_size()\<close>.  That bound is the library's; on the 64-bit
  implementations it is at most \<^verbatim>\<open>PTRDIFF_MAX\<close>, which is the value taken here, and
  no span in memory is that long.
\<close>

definition string_max_size :: size_t where
  "string_max_size = 0x7FFFFFFFFFFFFFFF"

text \<open>
  \<^verbatim>\<open>readString(size_t length)\<close>: the same wrapping check as \<open>read\<close>, then a
  \<^verbatim>\<open>std::string\<close> built from \<open>length\<close> bytes at the cursor, then the cursor moves.
  When the constructor throws, the cursor has not moved yet.
\<close>

definition readString :: "PacketReader \<Rightarrow> size_t \<Rightarrow> (error + string) \<times> PacketReader" where
  "readString r n =
     (if rposition r + n > PacketReader_size r
      then (Inl (runtime_error ''Not enough data to read string''), r)
      else if n > string_max_size
      then (Inl (length_error ''basic_string::_M_create''), r)
      else (Inr (map char_of_byte (memcpy_from (rdata r) (rposition r) n)),
            r\<lparr>rposition := rposition r + n\<rparr>))"

definition seek :: "PacketReader \<Rightarrow> size_t \<Rightarrow> PacketReader" where
  "seek r p = r\<lparr>rposition := (if p < PacketReader_size r then p else PacketReader_size r)\<rparr>"

definition skip :: "PacketReader \<Rightarrow> size_t \<Rightarrow> PacketReader" where
  "skip r bytes =
     (let newPos = rposition r + bytes
      in r\<lparr>rposition := (if newPos < PacketReader_size r then newPos else PacketReader_size r)\<rparr>)"

definition reset :: "PacketReader \<Rightarrow> PacketReader" where
  "reset r = r\<lparr>rposition := 0\<rparr>"

text \<open>
  A span that exists in memory has fewer than \<open>2 ^ 64\<close> bytes, and the cursor lies
  within it.
\<close>

definition reader_ok :: "PacketReader \<Rightarrow> bool" where
  "reader_ok r \<longleftrightarrow> length (rdata r) < 2 ^ 64 \<and> unat (rposition r) \<le> length (rdata r)"

text \<open>A reader over the bytes of a builder, moved to a given offset.\<close>

definition reader_at :: "PacketBuilder \<Rightarrow> size_t \<Rightarrow> PacketReader" where
  "reader_at b off = seek (PacketReader_new (PacketBuilder_data b)) off"

text \<open>
  The idiom of the examples for a length-prefixed string:
  \<^verbatim>\<open>auto str_len = reader.readUint32(); auto message = reader.readString(str_len);\<close>
\<close>

definition readUint32_then_string :: "PacketReader \<Rightarrow> (error + string) \<times> PacketReader" where
  "readUint32_then_string r =
     (case readUint32 r of
        (Inl e, r1) \<Rightarrow> (Inl e, r1)
      | (Inr str_len, r1) \<Rightarrow> readString r1 (ucast str_len))"

text \<open>The writes and the reads of \<^verbatim>\<open>examples/basic/packet_builder_example.cpp\<close>.\<close>

definition example_builder :: PacketBuilder where
  "example_builder =
     writeUint8 (writeUint32 (writeString (writeUint32 PacketBuilder_new 0x12345678)
       ''Hello, World!'') 314159) 255"

definition example_read ::
  "PacketReader \<Rightarrow> (error + uint32_t \<times> string \<times> uint32_t \<times> uint8_t) \<times> PacketReader" where
  "example_read r =
     (case readUint32 r of
        (Inl e, r1) \<Rightarrow> (Inl e, r1)
      | (Inr magic, r1) \<Rightarrow>
     (case readUint32 r1 of
        (Inl e, r2) \<Rightarrow> (Inl e, r2)
      | (Inr str_len, r2) \<Rightarrow>
     (case readString r2 (ucast str_len) of
        (Inl e, r3) \<Rightarrow> (Inl e, r3)
      | (Inr message, r3) \<Rightarrow>
     (case readUint32 r3 of
        (Inl e, r4) \<Rightarrow> (Inl e, r4)
      | (Inr number, r4) \<Rightarrow>
     (case readUint8 r4 of
        (Inl e, r5) \<Rightarrow> (Inl e, r5)
      | (Inr max_byte, r5) \<Rightarrow> (Inr (magic, message, number, max_byte), r5))))))"

section \<open>Event dispatcher (event_dispatcher.cpp)\<close>

text \<open>
  A \<^verbatim>\<open>std::shared_ptr<Peer>\<close> is the identity of the shared object it points
  to (\<open>None\<close> is the null pointer); a \<^verbatim>\<open>std::unique_ptr<Packet>\<close> is \<open>None\<close> when
  null and holds the wrapper otherwise.  A native pointer of the transport engine is an
  address, \<open>None\<close> when null.
\<close>

type_synonym ChannelIdT = uint8_t

record Endpoint =
  host :: string
  port :: uint16_t

record Packet =
  nativePacket :: "nat option"

record ConnectEvent =
  connect_peerHandle :: "nat option"
  connect_remoteEndpoint :: Endpoint
  connect_data :: uint32_t

record DisconnectEvent =
  disconnect_peerHandle :: "nat option"
  disconnect_remoteEndpoint :: Endpoint
  disconnect_data :: uint32_t

record ReceiveEvent =
  peerHandle :: "nat option"
  packetData :: "Packet option"
  channel :: ChannelIdT

text \<open>
  A handler is a \<^verbatim>\<open>std::function<void(const Event&)>\<close>: what it does is a
  change of the state \<open>'s\<close> it has captured.  Handlers do not touch the dispatcher that
  is running them.
\<close>

type_synonym 's ConnectHandler = "ConnectEvent \<Rightarrow> 's \<Rightarrow> 's"
type_synonym 's DisconnectHandler = "DisconnectEvent \<Rightarrow> 's \<Rightarrow> 's"
type_synonym 's ReceiveHandler = "ReceiveEvent \<Rightarrow> 's \<Rightarrow> 's"

record 's EventDispatcher =
  connectHandlers :: "'s ConnectHandler list"
  disconnectHandlers :: "'s DisconnectHandler list"
  receiveHandlers :: "'s ReceiveHandler list"
  channelHandlers :: "ChannelIdT \<rightharpoonup> 's ReceiveHandler list"

definition EventDispatcher_new :: "'s EventDispatcher" where
  "EventDispatcher_new =
     \<lparr>connectHandlers = [], disconnectHandlers = [], receiveHandlers = [],
      channelHandlers = Map.empty\<rparr>"

definition onConnect :: "'s ConnectHandler \<Rightarrow> 's EventDispatcher \<Rightarrow> 's EventDispatcher" where
  "onConnect handler d = d\<lparr>connectHandlers := connectHandlers d @ [handler]\<rparr>"

definition onDisconnect :: "'s DisconnectHandler \<Rightarrow> 's EventDispatcher \<Rightarrow> 's EventDispatcher" where
  "onDisconnect handler d = d\<lparr>disconnectHandlers := disconnectHandlers d @ [handler]\<rparr>"

definition onReceive :: "'s ReceiveHandler \<Rightarrow> 's EventDispatcher \<Rightarrow> 's EventDispatcher" where
  "onReceive handler d = d\<lparr>receiveHandlers := receiveHandlers d @ [handler]\<rparr>"

text \<open>
  \<^verbatim>\<open>channelHandlers_[channel].push_back(handler)\<close>: \<^verbatim>\<open>operator[]\<close> inserts an
  empty vector for a channel that has none yet.
\<close>

definition onReceive_channel ::
  "ChannelIdT \<Rightarrow> 's ReceiveHandler \<Rightarrow> 's EventDispatcher \<Rightarrow> 's EventDispatcher" where
  "onReceive_channel c handler d =
     d\<lparr>channelHandlers := (channelHandlers d)
         (c \<mapsto> (case channelHandlers d c of None \<Rightarrow> [] | Some hs \<Rightarrow> hs) @ [handler])\<rparr>"

definition clearHandlers :: "'s EventDispatcher \<Rightarrow> 's EventDispatcher" where
  "clearHandlers d =
     d\<lparr>connectHandlers := [], disconnectHandlers := [], receiveHandlers := [],
       channelHandlers := Map.empty\<rparr>"

text \<open>\<^verbatim>\<open>for (const auto& handler : handlers) handler(event);\<close>\<close>

fun invoke_each :: "('e \<Rightarrow> 's \<Rightarrow> 's) list \<Rightarrow> 'e \<Rightarrow> 's \<Rightarrow> 's" where
  "invoke_each [] event s = s"
| "invoke_each (handler # rest) event s = invoke_each rest event (handler event s)"

definition dispatchConnect :: "'s EventDispatcher \<Rightarrow> ConnectEvent \<Rightarrow> 's \<Rightarrow> 's" where
  "dispatchConnect d event s = invoke_each (connectHandlers d) event s"

definition dispatchDisconnect :: "'s EventDispatcher \<Rightarrow> DisconnectEvent \<Rightarrow> 's \<Rightarrow> 's" where
  "dispatchDisconnect d event s = invoke_each (disconnectHandlers d) event s"

definition dispatchReceive :: "'s EventDispatcher \<Rightarrow> ReceiveEvent \<Rightarrow> 's \<Rightarrow> 's" where
  "dispatchReceive d event s =
     (let s1 = invoke_each (receiveHandlers d) event s
      in case channelHandlers d (channel event) of
           None \<Rightarrow> s1
         | Some hs \<Rightarrow> invoke_each hs event s1)"

text \<open>A registration made by the application, and a sequence of them applied in order.\<close>

datatype 's registration =
  Global "'s ReceiveHandler"
| Scoped ChannelIdT "'s ReceiveHandler"

fun register :: "'s registration \<Rightarrow> 's EventDispatcher \<Rightarrow> 's EventDispatcher" where
  "register (Global handler) d = onReceive handler d"
| "register (Scoped c handler) d = onReceive_channel c handler d"

fun register_all :: "'s registration list \<Rightarrow> 's EventDispatcher \<Rightarrow> 's EventDispatcher" where
  "register_all [] d = d"
| "register_all (reg # regs) d = register_all regs (register reg d)"

fun global_handlers :: "'s registration list \<Rightarrow> 's ReceiveHandler list" where
  "global_handlers [] = []"
| "global_handlers (Global handler # regs) = handler # global_handlers regs"
| "global_handlers (Scoped c handler # regs) = global_handlers regs"

fun scoped_handlers :: "ChannelIdT \<Rightarrow> 's registration list \<Rightarrow> 's ReceiveHandler list" where
  "scoped_handlers c [] = []"
| "scoped_handlers c (Global handler # regs) = scoped_handlers c regs"
| "scoped_handlers c (Scoped c' handler # regs) =
     (if c' = c then handler # scoped_handlers c regs else scoped_handlers c regs)"

text \<open>The handlers registered for a channel, none if the map has no entry.\<close>

definition handlers_of :: "'s EventDispatcher \<Rightarrow> ChannelIdT \<Rightarrow> 's ReceiveHandler list" where
  "handlers_of d c = (case channelHandlers d c of None \<Rightarrow> [] | Some hs \<Rightarrow> hs)"

text \<open>A handler that does nothing but append its name to a log of invocations.\<close>

definition logging_handler :: "string \<Rightarrow> (string list) ReceiveHandler" where
  "logging_handler name event log = log @ [name]"

section \<open>The transport engine as seen by the layer\<close>

text \<open>
  Modelled from the spec: the header \<^verbatim>\<open>enet.h\<close> of the transport engine is not
  among the sources.  Its enumerations, the fields of its structures that the layer reads
  (\<open>state\<close>, \<open>address\<close>, \<open>roundTripTime\<close> of a peer; type, peer, channel, data and packet
  of an event) and its operations are those that the spec lists for the Transport Engine.
  The enumerators of \<^verbatim>\<open>ENetPeerState\<close> are pairwise distinct constants.
\<close>

datatype ENetPeerState =
  ENET_PEER_STATE_DISCONNECTED
| ENET_PEER_STATE_CONNECTING
| ENET_PEER_STATE_ACKNOWLEDGING_CONNECT
| ENET_PEER_STATE_CONNECTION_PENDING
| ENET_PEER_STATE_CONNECTION_SUCCEEDED
| ENET_PEER_STATE_CONNECTED
| ENET_PEER_STATE_DISCONNECT_LATER
| ENET_PEER_STATE_DISCONNECTING
| ENET_PEER_STATE_ACKNOWLEDGING_DISCONNECT
| ENET_PEER_STATE_ZOMBIE

datatype ENetEventType =
  ENET_EVENT_TYPE_NONE
| ENET_EVENT_TYPE_CONNECT
| ENET_EVENT_TYPE_DISCONNECT
| ENET_EVENT_TYPE_RECEIVE

record ENetAddress =
  address_host :: uint32_t
  address_port :: uint16_t

record ENetPeer =
  state :: ENetPeerState
  address :: ENetAddress
  roundTripTime :: uint32_t

text \<open>
  The engine delivers connect, disconnect and receive events with the address of the
  peer they concern; the packet pointer is null except in receive events.
\<close>

record ENetEvent =
  event_type :: ENetEventType
  event_peer :: nat
  event_channelID :: uint8_t
  event_data :: uint32_t
  event_packet :: "nat option"

text \<open>
  Every call that the layer makes into the engine is recorded, oldest first.  What the
  engine does in reaction belongs to the engine.
\<close>

datatype enet_call =
  enet_peer_send nat ChannelIdT "nat option"
| enet_peer_disconnect nat uint32_t
| enet_peer_disconnect_now nat uint32_t
| enet_peer_disconnect_later nat uint32_t
| enet_peer_ping nat
| enet_peer_timeout nat uint32_t uint32_t uint32_t
| enet_peer_reset nat
| enet_host_connect nat ENetAddress size_t uint32_t
| enet_host_broadcast nat ChannelIdT "nat option"
| enet_host_flush nat
| enet_packet_destroy nat

section \<open>Peer (peer.cpp)\<close>

datatype PeerState =
  disconnected
| connecting
| acknowledgingConnect
| connectionPending
| connectionSucceeded
| connected
| disconnectLater
| disconnecting
| acknowledgingDisconnect
| zombie

text \<open>
  \<^verbatim>\<open>static_cast<PeerState>(nativePeer_->state)\<close>: each enumerator of
  \<^verbatim>\<open>PeerState\<close> is declared with the value of the engine's enumerator of the same
  name.
\<close>

fun PeerState_of :: "ENetPeerState \<Rightarrow> PeerState" where
  "PeerState_of ENET_PEER_STATE_DISCONNECTED = disconnected"
| "PeerState_of ENET_PEER_STATE_CONNECTING = connecting"
| "PeerState_of ENET_PEER_STATE_ACKNOWLEDGING_CONNECT = acknowledgingConnect"
| "PeerState_of ENET_PEER_STATE_CONNECTION_PENDING = connectionPending"
| "PeerState_of ENET_PEER_STATE_CONNECTION_SUCCEEDED = connectionSucceeded"
| "PeerState_of ENET_PEER_STATE_CONNECTED = connected"
| "PeerState_of ENET_PEER_STATE_DISCONNECT_LATER = disconnectLater"
| "PeerState_of ENET_PEER_STATE_DISCONNECTING = disconnecting"
| "PeerState_of ENET_PEER_STATE_ACKNOWLEDGING_DISCONNECT = acknowledgingDisconnect"
| "PeerState_of ENET_PEER_STATE_ZOMBIE = zombie"

text \<open>
  The wrapper of one native peer.  Its weak reference to the host and its user data
  pointer are read by none of the operations below.
\<close>

record Peer =
  nativePeer :: "nat option"

text \<open>
  The world outside the host object: the memory and the answers of the engine, the
  calls made into it, the shared \<^verbatim>\<open>Peer\<close> objects with their strong reference
  counts (a count of 0 means that the object is gone and weak pointers to it have
  expired), the \<^verbatim>\<open>Packet\<close> objects that a \<^verbatim>\<open>unique_ptr\<close> has released
  and that nothing owns any more, oldest first, and the state \<open>app\<close> of the application.
\<close>

record 'u world =
  enet_peers :: "nat \<Rightarrow> ENetPeer"
  enet_address_get_host :: "ENetAddress \<Rightarrow> string option"
  enet_address_set_host :: "string \<Rightarrow> uint32_t option"
  enet_host_connect_result :: "nat \<Rightarrow> ENetAddress \<Rightarrow> size_t \<Rightarrow> uint32_t \<Rightarrow> nat option"
  enet_peer_send_result :: "nat \<Rightarrow> ChannelIdT \<Rightarrow> nat option \<Rightarrow> int"
  pending :: "(int \<times> ENetEvent) list"
  calls :: "enet_call list"
  peer_objs :: "nat \<Rightarrow> Peer"
  use_count :: "nat \<Rightarrow> nat"
  next_obj :: nat
  released :: "Packet list"
  app :: 'u

definition engine_call :: "enet_call \<Rightarrow> 'u world \<Rightarrow> 'u world" where
  "engine_call c w = w\<lparr>calls := calls w @ [c]\<rparr>"

subsection \<open>Shared and weak pointers\<close>

definition make_shared_Peer :: "Peer \<Rightarrow> 'u world \<Rightarrow> nat \<times> 'u world" where
  "make_shared_Peer p w =
     (next_obj w,
      w\<lparr>peer_objs := (peer_objs w)(next_obj w := p),
        use_count := (use_count w)(next_obj w := 1),
        next_obj := Suc (next_obj w)\<rparr>)"

text \<open>
  Copying and destroying a \<^verbatim>\<open>shared_ptr\<close>; the destructor of \<^verbatim>\<open>Peer\<close> has
  no effect outside the object.
\<close>

definition shared_copy :: "nat \<Rightarrow> 'u world \<Rightarrow> 'u world" where
  "shared_copy i w = w\<lparr>use_count := (use_count w)(i := Suc (use_count w i))\<rparr>"

definition shared_release :: "nat \<Rightarrow> 'u world \<Rightarrow> 'u world" where
  "shared_release i w = w\<lparr>use_count := (use_count w)(i := use_count w i - 1)\<rparr>"

definition expired :: "'u world \<Rightarrow> nat \<Rightarrow> bool" where
  "expired w i \<longleftrightarrow> use_count w i = 0"

fun release_each :: "nat list \<Rightarrow> 'u world \<Rightarrow> 'u world" where
  "release_each [] w = w"
| "release_each (i # rest) w = release_each rest (shared_release i w)"

subsection \<open>Endpoint (endpoint.cpp)\<close>

definition toEnetAddress :: "'u world \<Rightarrow> Endpoint \<Rightarrow> error + ENetAddress" where
  "toEnetAddress w ep =
     (case enet_address_set_host w (host ep) of
        None \<Rightarrow> Inl (runtime_error (''Failed to resolve hostname: '' @ host ep))
      | Some a \<Rightarrow> Inr \<lparr>address_host = a, address_port = port ep\<rparr>)"

definition fromEnetAddress :: "'u world \<Rightarrow> ENetAddress \<Rightarrow> error + Endpoint" where
  "fromEnetAddress w addr =
     (case enet_address_get_host w addr of
        None \<Rightarrow> Inl (runtime_error ''Failed to get hostname from address'')
      | Some hostname \<Rightarrow> Inr \<lparr>host = hostname, port = address_port addr\<rparr>)"

subsection \<open>Packet wrappers\<close>

text \<open>
  \<^verbatim>\<open>Packet::~Packet\<close>, and the destructor of a \<^verbatim>\<open>unique_ptr<Packet>\<close> that
  still owns its wrapper.
\<close>

definition Packet_nativeHandle :: "Packet \<Rightarrow> nat option" where
  "Packet_nativeHandle pkt = nativePacket pkt"

definition Packet_destroy :: "Packet \<Rightarrow> 'u world \<Rightarrow> 'u world" where
  "Packet_destroy pkt w =
     (case nativePacket pkt of
        None \<Rightarrow> w
      | Some native \<Rightarrow> engine_call (enet_packet_destroy native) w)"

definition unique_ptr_destroy :: "Packet option \<Rightarrow> 'u world \<Rightarrow> 'u world" where
  "unique_ptr_destroy pkt w = (case pkt of None \<Rightarrow> w | Some p \<Rightarrow> Packet_destroy p w)"

text \<open>
  \<^verbatim>\<open>Packet::Packet(Packet&& other)\<close>: the new wrapper and \<open>other\<close> as the constructor
  leaves it, its native handle exchanged for null.
\<close>

definition Packet_move :: "Packet \<Rightarrow> Packet \<times> Packet" where
  "Packet_move other = (\<lparr>nativePacket = nativePacket other\<rparr>, other\<lparr>nativePacket := None\<rparr>)"

text \<open>
  \<^verbatim>\<open>pkt.release()\<close> with the pointer it returns dropped: the \<^verbatim>\<open>unique_ptr\<close>
  gives the wrapper up without destroying it, and the object stays as it is.
\<close>

definition unique_ptr_release :: "Packet \<Rightarrow> 'u world \<Rightarrow> 'u world" where
  "unique_ptr_release wrapper w = w\<lparr>released := released w @ [wrapper]\<rparr>"

definition Packet_fromNative :: "nat option \<Rightarrow> Packet option" where
  "Packet_fromNative native =
     (case native of None \<Rightarrow> None | Some n \<Rightarrow> Some \<lparr>nativePacket = Some n\<rparr>)"

subsection \<open>Operations of a peer\<close>

text \<open>
  \<^verbatim>\<open>Peer::send(ChannelIdT, std::unique_ptr<Packet>)\<close>.  The parameter \<open>pkt\<close> is the
  function's own \<^verbatim>\<open>unique_ptr\<close>: on the early return it still owns the wrapper (if
  any) and destroys it; after \<^verbatim>\<open>pkt.release()\<close> it owns nothing, and the wrapper
  is not destroyed.
\<close>

definition Peer_send :: "Peer \<Rightarrow> ChannelIdT \<Rightarrow> Packet option \<Rightarrow> 'u world \<Rightarrow> bool \<times> 'u world" where
  "Peer_send p ch pkt w =
     (case (nativePeer p, pkt) of
        (Some np, Some wrapper) \<Rightarrow>
          (let native = Packet_nativeHandle wrapper;
               w1 = unique_ptr_release wrapper w
           in (enet_peer_send_result w1 np ch native = 0,
               engine_call (enet_peer_send np ch native) w1))
      | _ \<Rightarrow> (False, unique_ptr_destroy pkt w))"

text \<open>
  A call \<^verbatim>\<open>peer->send(channel, std::move(var))\<close>.  A \<^verbatim>\<open>unique_ptr\<close> cannot
  be copied: the parameter is move-constructed from the caller's variable, and the move
  constructor of \<^verbatim>\<open>unique_ptr\<close> (the library's, not this code's) leaves the
  variable null.  The second component is the caller's variable after the call.
\<close>

definition send_move ::
  "Peer \<Rightarrow> ChannelIdT \<Rightarrow> Packet option \<Rightarrow> 'u world \<Rightarrow> bool \<times> Packet option \<times> 'u world" where
  "send_move p ch var w = (case Peer_send p ch var w of (ok, w') \<Rightarrow> (ok, None, w'))"

definition Peer_disconnect :: "Peer \<Rightarrow> uint32_t \<Rightarrow> 'u world \<Rightarrow> 'u world" where
  "Peer_disconnect p disconnectData w =
     (case nativePeer p of
        None \<Rightarrow> w
      | Some np \<Rightarrow> engine_call (enet_peer_disconnect np disconnectData) w)"

definition Peer_disconnectNow :: "Peer \<Rightarrow> uint32_t \<Rightarrow> 'u world \<Rightarrow> 'u world" where
  "Peer_disconnectNow p disconnectData w =
     (case nativePeer p of
        None \<Rightarrow> w
      | Some np \<Rightarrow> engine_call (enet_peer_disconnect_now np disconnectData) w)"

definition Peer_disconnectLater :: "Peer \<Rightarrow> uint32_t \<Rightarrow> 'u world \<Rightarrow> 'u world" where
  "Peer_disconnectLater p disconnectData w =
     (case nativePeer p of
        None \<Rightarrow> w
      | Some np \<Rightarrow> engine_call (enet_peer_disconnect_later np disconnectData) w)"

definition Peer_ping :: "Peer \<Rightarrow> 'u world \<Rightarrow> 'u world" where
  "Peer_ping p w =
     (case nativePeer p of None \<Rightarrow> w | Some np \<Rightarrow> engine_call (enet_peer_ping np) w)"

text \<open>The three durations are millisecond counts (64-bit), cast to \<^verbatim>\<open>uint32_t\<close>.\<close>

definition Peer_timeout :: "Peer \<Rightarrow> uint64_t \<Rightarrow> uint64_t \<Rightarrow> uint64_t \<Rightarrow> 'u world \<Rightarrow> 'u world" where
  "Peer_timeout p timeoutLimit timeoutMinimum timeoutMaximum w =
     (case nativePeer p of
        None \<Rightarrow> w
      | Some np \<Rightarrow>
          engine_call (enet_peer_timeout np (ucast timeoutLimit) (ucast timeoutMinimum)
            (ucast timeoutMaximum)) w)"

definition Peer_reset :: "Peer \<Rightarrow> 'u world \<Rightarrow> 'u world" where
  "Peer_reset p w =
     (case nativePeer p of None \<Rightarrow> w | Some np \<Rightarrow> engine_call (enet_peer_reset np) w)"

definition Peer_state :: "Peer \<Rightarrow> 'u world \<Rightarrow> PeerState" where
  "Peer_state p w =
     (case nativePeer p of
        Some np \<Rightarrow> PeerState_of (state (enet_peers w np))
      | None \<Rightarrow> disconnected)"

definition Peer_endpoint :: "Peer \<Rightarrow> 'u world \<Rightarrow> error + Endpoint" where
  "Peer_endpoint p w =
     (case nativePeer p of
        None \<Rightarrow> Inr \<lparr>host = [], port = 0\<rparr>
      | Some np \<Rightarrow> fromEnetAddress w (address (enet_peers w np)))"

definition Peer_roundTripTime :: "Peer \<Rightarrow> 'u world \<Rightarrow> int" where
  "Peer_roundTripTime p w =
     (case nativePeer p of Some np \<Rightarrow> uint (roundTripTime (enet_peers w np)) | None \<Rightarrow> 0)"

definition isConnected :: "Peer \<Rightarrow> 'u world \<Rightarrow> bool" where
  "isConnected p w \<longleftrightarrow> Peer_state p w = connected"

definition isConnecting :: "Peer \<Rightarrow> 'u world \<Rightarrow> bool" where
  "isConnecting p w \<longleftrightarrow>
     (let currentState = Peer_state p w
      in currentState = connecting \<or> currentState = acknowledgingConnect \<or>
         currentState = connectionPending \<or> currentState = connectionSucceeded)"

definition isDisconnecting :: "Peer \<Rightarrow> 'u world \<Rightarrow> bool" where
  "isDisconnecting p w \<longleftrightarrow>
     (let currentState = Peer_state p w
      in currentState = disconnectLater \<or> currentState = disconnecting \<or>
         currentState = acknowledgingDisconnect)"

definition isDisconnected :: "Peer \<Rightarrow> 'u world \<Rightarrow> bool" where
  "isDisconnected p w \<longleftrightarrow> Peer_state p w = disconnected"

definition Peer_nativeHandle :: "Peer \<Rightarrow> nat option" where
  "Peer_nativeHandle p = nativePeer p"

section \<open>Host (host.cpp)\<close>

text \<open>
  The host object: the native host, the role, the dispatcher (a \<^verbatim>\<open>unique_ptr\<close>,
  set by the constructor) and the registry \<open>peers\<close> of weak pointers, each the identity of
  the shared object it watches.  The handlers of the dispatcher act on the world.  The
  service thread is left out.
\<close>

record 'u Host =
  nativeHost :: "nat option"
  isServer :: bool
  dispatcher :: "('u world) EventDispatcher option"
  peers :: "nat list"

text \<open>The constructor \<^verbatim>\<open>Host(ENetHost*, bool)\<close>.\<close>

definition Host_new :: "nat option \<Rightarrow> bool \<Rightarrow> 'u Host" where
  "Host_new native server =
     \<lparr>nativeHost = native, isServer = server, dispatcher = Some EventDispatcher_new,
      peers = []\<rparr>"

text \<open>
  \<^verbatim>\<open>Host::connect\<close>: the result is the error thrown or the shared pointer returned
  to the caller, who owns the one strong reference.
\<close>

definition Host_connect ::
  "'u Host \<Rightarrow> Endpoint \<Rightarrow> size_t \<Rightarrow> uint32_t \<Rightarrow> 'u world \<Rightarrow> (error + nat) \<times> 'u Host \<times> 'u world" where
  "Host_connect h remoteEndpoint channels connectData w =
     (case nativeHost h of
        None \<Rightarrow> (Inl (runtime_error ''Invalid host''), h, w)
      | Some nh \<Rightarrow>
     (case toEnetAddress w remoteEndpoint of
        Inl e \<Rightarrow> (Inl e, h, w)
      | Inr addr \<Rightarrow>
     (let w1 = engine_call (enet_host_connect nh addr channels connectData) w
      in case enet_host_connect_result w nh addr channels connectData of
           None \<Rightarrow> (Inl (runtime_error ''Failed to initiate connection''), h, w1)
         | Some np \<Rightarrow>
             (case make_shared_Peer \<lparr>nativePeer = Some np\<rparr> w1 of
                (peerWrapper, w2) \<Rightarrow> (Inr peerWrapper, h\<lparr>peers := peers h @ [peerWrapper]\<rparr>, w2)))))"

definition Host_flush :: "'u Host \<Rightarrow> 'u world \<Rightarrow> 'u world" where
  "Host_flush h w =
     (case nativeHost h of None \<Rightarrow> w | Some nh \<Rightarrow> engine_call (enet_host_flush nh) w)"

text \<open>\<^verbatim>\<open>Host::broadcast(ChannelIdT, std::unique_ptr<Packet>)\<close>, as \<open>Peer_send\<close>.\<close>

definition Host_broadcast :: "'u Host \<Rightarrow> ChannelIdT \<Rightarrow> Packet option \<Rightarrow> 'u world \<Rightarrow> 'u world" where
  "Host_broadcast h ch pkt w =
     (case (nativeHost h, pkt) of
        (Some nh, Some wrapper) \<Rightarrow>
          (let native = Packet_nativeHandle wrapper;
               w1 = unique_ptr_release wrapper w
           in engine_call (enet_host_broadcast nh ch native) w1)
      | _ \<Rightarrow> unique_ptr_destroy pkt w)"

definition broadcast_move ::
  "'u Host \<Rightarrow> ChannelIdT \<Rightarrow> Packet option \<Rightarrow> 'u world \<Rightarrow> Packet option \<times> 'u world" where
  "broadcast_move h ch var w = (None, Host_broadcast h ch var w)"

text \<open>
  \<^verbatim>\<open>Host::peerCount\<close>: the loop over the registry.  The count is bounded by the
  size of the vector, it cannot overflow.
\<close>

fun peerCount_loop :: "'u world \<Rightarrow> nat list \<Rightarrow> nat \<Rightarrow> nat" where
  "peerCount_loop w [] count = count"
| "peerCount_loop w (weakPeer # rest) count =
     (if \<not> expired w weakPeer then peerCount_loop w rest (Suc count)
      else peerCount_loop w rest count)"

definition peerCount :: "'u Host \<Rightarrow> 'u world \<Rightarrow> nat" where
  "peerCount h w = peerCount_loop w (peers h) 0"

text \<open>
  \<^verbatim>\<open>Host::getPeers\<close>: the loop returns the strong pointers gained by \<open>lock()\<close>,
  the entries that stay in the registry, and the world, in which every pointer returned
  counts as one more strong reference.
\<close>

fun getPeers_loop :: "nat list \<Rightarrow> 'u world \<Rightarrow> nat list \<times> nat list \<times> 'u world" where
  "getPeers_loop [] w = ([], [], w)"
| "getPeers_loop (it # rest) w =
     (if \<not> expired w it
      then (case getPeers_loop rest (shared_copy it w) of
              (activePeers, kept, w') \<Rightarrow> (it # activePeers, it # kept, w'))
      else getPeers_loop rest w)"

definition getPeers :: "'u Host \<Rightarrow> 'u world \<Rightarrow> nat list \<times> 'u Host \<times> 'u world" where
  "getPeers h w =
     (case getPeers_loop (peers h) w of
        (activePeers, kept, w') \<Rightarrow> (activePeers, h\<lparr>peers := kept\<rparr>, w'))"

text \<open>
  \<^verbatim>\<open>Host::findPeerByNative\<close>: the first live wrapper of the native peer.  The
  pointer returned is a copy; the vector of \<open>getPeers\<close> is destroyed on return.
\<close>

fun find_native :: "'u world \<Rightarrow> nat option \<Rightarrow> nat list \<Rightarrow> nat option" where
  "find_native w native [] = None"
| "find_native w native (peerPtr # rest) =
     (if Peer_nativeHandle (peer_objs w peerPtr) = native then Some peerPtr
      else find_native w native rest)"

definition findPeerByNative ::
  "'u Host \<Rightarrow> nat option \<Rightarrow> 'u world \<Rightarrow> nat option \<times> 'u Host \<times> 'u world" where
  "findPeerByNative h native w =
     (case getPeers h w of
        (found_peers, h', w1) \<Rightarrow>
          (case find_native w1 native found_peers of
             None \<Rightarrow> (None, h', release_each found_peers w1)
           | Some peerPtr \<Rightarrow> (Some peerPtr, h', release_each found_peers (shared_copy peerPtr w1))))"

text \<open>
  \<^verbatim>\<open>Host::processEvent\<close>.  The first component is the exception that leaves the
  function, if any (\<open>fromEnetAddress\<close> can throw).  The event value holds a copy of the
  strong pointer \<open>peerWrapper\<close>; both are released when the function is left, and so is
  the wrapper of a received packet, which the event value owns.
\<close>

definition processEvent ::
  "'u Host \<Rightarrow> ENetEvent \<Rightarrow> 'u world \<Rightarrow> error option \<times> 'u Host \<times> 'u world" where
  "processEvent h event w =
     (case dispatcher h of
        None \<Rightarrow> (None, h, w)
      | Some d \<Rightarrow>
     (case event_type event of
        ENET_EVENT_TYPE_CONNECT \<Rightarrow>
          (case make_shared_Peer \<lparr>nativePeer = Some (event_peer event)\<rparr> w of
             (peerWrapper, w1) \<Rightarrow>
               (let h1 = h\<lparr>peers := peers h @ [peerWrapper]\<rparr>;
                    w2 = shared_copy peerWrapper w1
                in case fromEnetAddress w2 (address (enet_peers w2 (event_peer event))) of
                     Inl e \<Rightarrow> (Some e, h1, shared_release peerWrapper (shared_release peerWrapper w2))
                   | Inr ep \<Rightarrow>
                       (let connectEvt = \<lparr>connect_peerHandle = Some peerWrapper,
                              connect_remoteEndpoint = ep, connect_data = event_data event\<rparr>;
                            w3 = dispatchConnect d connectEvt w2
                        in (None, h1, shared_release peerWrapper (shared_release peerWrapper w3)))))
      | ENET_EVENT_TYPE_DISCONNECT \<Rightarrow>
          (case findPeerByNative h (Some (event_peer event)) w of
             (None, h1, w1) \<Rightarrow> (None, h1, w1)
           | (Some peerWrapper, h1, w1) \<Rightarrow>
               (let w2 = shared_copy peerWrapper w1
                in case fromEnetAddress w2 (address (enet_peers w2 (event_peer event))) of
                     Inl e \<Rightarrow> (Some e, h1, shared_release peerWrapper (shared_release peerWrapper w2))
                   | Inr ep \<Rightarrow>
                       (let disconnectEvt = \<lparr>disconnect_peerHandle = Some peerWrapper,
                              disconnect_remoteEndpoint = ep, disconnect_data = event_data event\<rparr>;
                            w3 = dispatchDisconnect d disconnectEvt w2
                        in (None, h1, shared_release peerWrapper (shared_release peerWrapper w3)))))
      | ENET_EVENT_TYPE_RECEIVE \<Rightarrow>
          (case findPeerByNative h (Some (event_peer event)) w of
             (None, h1, w1) \<Rightarrow> (None, h1, w1)
           | (Some peerWrapper, h1, w1) \<Rightarrow>
               (case event_packet event of
                  None \<Rightarrow> (None, h1, shared_release peerWrapper w1)
                | Some native \<Rightarrow>
                    (let packetWrapper = Packet_fromNative (Some native);
                         receiveEvt = \<lparr>peerHandle = Some peerWrapper, packetData = packetWrapper,
                           channel = event_channelID event\<rparr>;
                         w2 = dispatchReceive d receiveEvt (shared_copy peerWrapper w1);
                         w3 = unique_ptr_destroy packetWrapper w2
                     in (None, h1, shared_release peerWrapper (shared_release peerWrapper w3)))))
      | ENET_EVENT_TYPE_NONE \<Rightarrow> (None, h, w)))"

text \<open>
  \<^verbatim>\<open>Host::service\<close>: \<^verbatim>\<open>enet_host_service\<close> answers with the head of
  \<open>pending\<close>, a result code and an event, or with 0 when nothing is pending within the
  timeout.
\<close>

definition service :: "'u Host \<Rightarrow> 'u world \<Rightarrow> (error + int) \<times> 'u Host \<times> 'u world" where
  "service h w =
     (case nativeHost h of
        None \<Rightarrow> (Inr 0, h, w)
      | Some nh \<Rightarrow>
     (case pending w of
        [] \<Rightarrow> (Inr 0, h, w)
      | (result, event) # rest \<Rightarrow>
          (if result > 0
           then (case processEvent h event (w\<lparr>pending := rest\<rparr>) of
                   (None, h', w') \<Rightarrow> (Inr result, h', w')
                 | (Some e, h', w') \<Rightarrow> (Inl e, h', w'))
           else (Inr result, h, w\<lparr>pending := rest\<rparr>))))"

section \<open>Concrete scenarios\<close>

text \<open>
  A world in which every native peer is in state \<open>st\<close>, the engine accepts what it is
  asked (a connection attempt yields the native peer 7), nothing is pending, no call has
  been made, no \<^verbatim>\<open>Peer\<close> object exists and no packet wrapper has been released.
  The application state is a log of strings.
\<close>

definition quiet_world :: "ENetPeerState \<Rightarrow> (string list) world" where
  "quiet_world st =
     \<lparr>enet_peers = (\<lambda>a. \<lparr>state = st, address = \<lparr>address_host = 0, address_port = 0\<rparr>,
                          roundTripTime = 0\<rparr>),
      enet_address_get_host = (\<lambda>a. Some ''remote''),
      enet_address_set_host = (\<lambda>name. Some 0),
      enet_host_connect_result = (\<lambda>nh addr channels connectData. Some 7),
      enet_peer_send_result = (\<lambda>np ch native. 0),
      pending = [],
      calls = [],
      peer_objs = (\<lambda>i. \<lparr>nativePeer = None\<rparr>),
      use_count = (\<lambda>i. 0),
      next_obj = 0,
      released = [],
      app = []\<rparr>"

text \<open>
  A connect handler that keeps a copy of the peer pointer of the event, and handlers
  that write a line to the log.
\<close>

definition retain_peer :: "(string list world) ConnectHandler" where
  "retain_peer event w =
     (case connect_peerHandle event of None \<Rightarrow> w | Some i \<Rightarrow> shared_copy i w)"

definition log_disconnect :: "(string list world) DisconnectHandler" where
  "log_disconnect event w = w\<lparr>app := app w @ [''disconnect'']\<rparr>"

definition log_receive :: "(string list world) ReceiveHandler" where
  "log_receive event w = w\<lparr>app := app w @ [''receive'']\<rparr>"

text \<open>A client host on the native host 1 with these three handlers registered.\<close>

definition client_host :: "(string list) Host" where
  "client_host =
     (Host_new (Some 1) False)
       \<lparr>dispatcher := Some (onReceive log_receive (onDisconnect log_disconnect
          (onConnect retain_peer EventDispatcher_new)))\<rparr>"

definition engine_event :: "ENetEventType \<Rightarrow> nat \<Rightarrow> nat option \<Rightarrow> ENetEvent" where
  "engine_event t np pkt =
     \<lparr>event_type = t, event_peer = np, event_channelID = 0, event_data = 0,
      event_packet = pkt\<rparr>"

text \<open>
  The host and the world after one more \<open>connect\<close> to a server, and the scenario of two of
  them on the client host.
\<close>

definition after_connect ::
  "(string list) Host \<times> (string list) world \<Rightarrow> (string list) Host \<times> (string list) world" where
  "after_connect hw =
     snd (Host_connect (fst hw) \<lparr>host = ''server'', port = 7777\<rparr> 1 0 (snd hw))"

definition one_connection :: "(string list) Host \<times> (string list) world" where
  "one_connection = after_connect (client_host, quiet_world ENET_PEER_STATE_CONNECTING)"

definition two_connections :: "(string list) Host \<times> (string list) world" where
  "two_connections = after_connect one_connection"

section \<open>Properties of the framing\<close>

lemma length_le_bytes: "length (le_bytes n w) = n"
  by (induction n arbitrary: w) auto

lemma le_word_le_bytes: "le_word (le_bytes n w) = take_bit (8 * n) w"
proof (induction n arbitrary: w)
  case 0
  show ?case by simp
next
  case (Suc n)
  have "ucast (ucast w :: uint8_t) OR push_bit 8 (take_bit (8 * n) (drop_bit 8 w))
        = take_bit (8 * Suc n) w"
    by (rule bit_word_eqI) (auto simp: bit_simps)
  then show ?case by (simp add: Suc)
qed

lemma le_word_le_bytes_full:
  fixes w :: "'a::len word"
  assumes "LENGTH('a) \<le> 8 * n"
  shows "le_word (le_bytes n w) = w"
  using assms by (simp add: le_word_le_bytes take_bit_word_eq_self)

lemma char_of_byte_of_char: "char_of_byte (byte_of_char c) = c"
  by (simp add: char_of_byte_def byte_of_char_def unat_of_nat)

lemma size_t_of_nat_le:
  assumes "n < 2 ^ 64" "m \<le> n"
  shows "(of_nat m :: size_t) \<le> of_nat n"
  using assms by (simp add: word_le_nat_alt unat_of_nat)

lemma size_t_of_nat_less:
  assumes "n < 2 ^ 64" "m < n"
  shows "(of_nat m :: size_t) < of_nat n"
  using assms by (simp add: word_less_nat_alt unat_of_nat)

lemma seek_offset:
  assumes "length bytes < 2 ^ 64" "off \<le> length bytes"
  shows "seek (PacketReader_new bytes) (of_nat off) = \<lparr>rdata = bytes, rposition = of_nat off\<rparr>"
proof -
  have "off < length bytes \<or> off = length bytes" using assms by arith
  then show ?thesis
    using assms
    by (auto simp: seek_def PacketReader_new_def PacketReader_size_def word_less_nat_alt unat_of_nat)
qed

lemma read_at_offset:
  assumes "length (pre @ rep @ post) < 2 ^ 64"
  shows "PacketReader_read \<lparr>rdata = pre @ rep @ post, rposition = of_nat (length pre)\<rparr>
           (of_nat (length rep))
         = (Some rep, \<lparr>rdata = pre @ rep @ post, rposition = of_nat (length pre + length rep)\<rparr>)"
proof -
  have lp: "unat (of_nat (length pre) :: size_t) = length pre"
    using assms by (simp add: unat_of_nat)
  have lr: "unat (of_nat (length rep) :: size_t) = length rep"
    using assms by (simp add: unat_of_nat)
  have le: "(of_nat (length pre + length rep) :: size_t) \<le> of_nat (length (pre @ rep @ post))"
    using assms by (intro size_t_of_nat_le) auto
  then have "\<not> (of_nat (length pre) + of_nat (length rep)
                > (of_nat (length (pre @ rep @ post)) :: size_t))"
    by (simp add: not_less)
  then show ?thesis
    by (simp add: PacketReader_read_def PacketReader_size_def memcpy_from_def lp lr)
qed

lemma reader_at_write:
  assumes "length (buffer b) + length rep + length post < 2 ^ 64"
  shows "reader_at (PacketBuilder_write (PacketBuilder_write b rep) post) (PacketBuilder_size b)
         = \<lparr>rdata = buffer b @ rep @ post, rposition = of_nat (length (buffer b))\<rparr>"
  using assms seek_offset [of "buffer b @ rep @ post" "length (buffer b)"]
  by (simp add: reader_at_def PacketBuilder_write_def PacketBuilder_data_def PacketBuilder_size_def)

lemma read_back_raw:
  assumes "length (buffer b) + length rep + length post < 2 ^ 64"
  shows "PacketReader_read
           (reader_at (PacketBuilder_write (PacketBuilder_write b rep) post) (PacketBuilder_size b))
           (of_nat (length rep))
         = (Some rep, \<lparr>rdata = buffer b @ rep @ post,
                       rposition = PacketBuilder_size b + of_nat (length rep)\<rparr>)"
proof -
  have "length (buffer b @ rep @ post) < 2 ^ 64" using assms by simp
  from read_at_offset [OF this] show ?thesis
    unfolding reader_at_write [OF assms] by (simp add: PacketBuilder_size_def)
qed

lemma read_back_uint8:
  assumes "length (buffer b) + 1 + length post < 2 ^ 64"
  shows "readUint8 (reader_at (PacketBuilder_write (writeUint8 b v) post) (PacketBuilder_size b))
         = (Inr v, \<lparr>rdata = buffer b @ [v] @ post, rposition = PacketBuilder_size b + 1\<rparr>)"
proof -
  have w: "writeUint8 b v = PacketBuilder_write b [v]"
    by (simp add: writeUint8_def PacketBuilder_write_def)
  have l: "length (buffer b) + length [v] + length post < 2 ^ 64" using assms by simp
  have u: "unat (of_nat (length (buffer b)) :: size_t) = length (buffer b)"
    using assms by (simp add: unat_of_nat)
  have "(of_nat (length (buffer b)) :: size_t) < of_nat (length (buffer b @ [v] @ post))"
    using assms by (intro size_t_of_nat_less) auto
  then have "\<not> (of_nat (length (buffer b @ [v] @ post)) \<le> (of_nat (length (buffer b)) :: size_t))"
    by (simp add: not_le)
  then show ?thesis
    unfolding w reader_at_write [OF l]
    by (simp add: readUint8_def PacketReader_size_def u PacketBuilder_size_def)
qed

lemma read_back_uint16:
  assumes "length (buffer b) + 2 + length post < 2 ^ 64"
  shows "readUint16 (reader_at (PacketBuilder_write (writeUint16 b v) post) (PacketBuilder_size b))
         = (Inr v, \<lparr>rdata = buffer b @ le_bytes 2 v @ post, rposition = PacketBuilder_size b + 2\<rparr>)"
proof -
  have l: "length (buffer b) + length (le_bytes 2 v) + length post < 2 ^ 64"
    using assms by (simp add: length_le_bytes)
  have d: "le_word (le_bytes 2 v) = v" by (rule le_word_le_bytes_full) simp
  from read_back_raw [OF l] show ?thesis
    by (simp add: readUint16_def writeUint16_def length_le_bytes d)
qed

lemma read_back_uint32:
  assumes "length (buffer b) + 4 + length post < 2 ^ 64"
  shows "readUint32 (reader_at (PacketBuilder_write (writeUint32 b v) post) (PacketBuilder_size b))
         = (Inr v, \<lparr>rdata = buffer b @ le_bytes 4 v @ post, rposition = PacketBuilder_size b + 4\<rparr>)"
proof -
  have l: "length (buffer b) + length (le_bytes 4 v) + length post < 2 ^ 64"
    using assms by (simp add: length_le_bytes)
  have d: "le_word (le_bytes 4 v) = v" by (rule le_word_le_bytes_full) simp
  from read_back_raw [OF l] show ?thesis
    by (simp add: readUint32_def writeUint32_def length_le_bytes d)
qed

lemma read_back_uint64:
  assumes "length (buffer b) + 8 + length post < 2 ^ 64"
  shows "readUint64 (reader_at (PacketBuilder_write (writeUint64 b v) post) (PacketBuilder_size b))
         = (Inr v, \<lparr>rdata = buffer b @ le_bytes 8 v @ post, rposition = PacketBuilder_size b + 8\<rparr>)"
proof -
  have l: "length (buffer b) + length (le_bytes 8 v) + length post < 2 ^ 64"
    using assms by (simp add: length_le_bytes)
  have d: "le_word (le_bytes 8 v) = v" by (rule le_word_le_bytes_full) simp
  from read_back_raw [OF l] show ?thesis
    by (simp add: readUint64_def writeUint64_def length_le_bytes d)
qed

lemma read_back_string:
  assumes "length str < 2 ^ 32" "length (buffer b) + 4 + length str + length post < 2 ^ 64"
  shows "readUint32_then_string
           (reader_at (PacketBuilder_write (writeString b str) post) (PacketBuilder_size b))
         = (Inr str,
            \<lparr>rdata = buffer b @ le_bytes 4 (of_nat (length str) :: uint32_t)
                       @ map byte_of_char str @ post,
             rposition = PacketBuilder_size b + 4 + of_nat (length str)\<rparr>)"
proof -
  let ?n = "of_nat (length str) :: uint32_t"
  let ?bs = "map byte_of_char str"
  have w: "PacketBuilder_write (writeString b str) post
           = PacketBuilder_write (writeUint32 b ?n) (?bs @ post)"
    by (simp add: writeString_def PacketBuilder_write_string_def PacketBuilder_write_def)
  have l: "length (buffer b) + 4 + length (?bs @ post) < 2 ^ 64" using assms by simp
  have uc: "(ucast ?n :: size_t) = of_nat (length ?bs)"
    using assms(1) by (simp add: unsigned_of_nat take_bit_nat_eq_self)
  have p: "PacketBuilder_size b + 4 = (of_nat (length (buffer b @ le_bytes 4 ?n)) :: size_t)"
    by (simp add: PacketBuilder_size_def length_le_bytes)
  have l2: "length ((buffer b @ le_bytes 4 ?n) @ ?bs @ post) < 2 ^ 64"
    using assms by (simp add: length_le_bytes)
  have cs: "map (char_of_byte \<circ> byte_of_char) str = str"
    by (induction str) (simp_all add: char_of_byte_of_char)
  have ms: "\<not> string_max_size < (of_nat (length ?bs) :: size_t)"
    using assms(1) by (simp add: word_less_nat_alt unat_of_nat string_max_size_def)
  have rs: "readString \<lparr>rdata = buffer b @ le_bytes 4 ?n @ ?bs @ post,
                         rposition = PacketBuilder_size b + 4\<rparr> (ucast ?n)
            = (Inr str, \<lparr>rdata = buffer b @ le_bytes 4 ?n @ ?bs @ post,
                         rposition = PacketBuilder_size b + 4 + of_nat (length str)\<rparr>)"
    using read_at_offset [OF l2] ms unfolding uc p
    by (simp add: readString_def PacketReader_read_def cs split: if_splits)
  show ?thesis
    unfolding w readUint32_then_string_def read_back_uint32 [OF l]
    using rs by simp
qed

lemma example_size: "PacketBuilder_size example_builder = 26"
  by code_simp

lemma example_values:
  "example_read (PacketReader_new (PacketBuilder_data example_builder))
   = (Inr (0x12345678, ''Hello, World!'', 314159, 255),
      \<lparr>rdata = buffer example_builder, rposition = 26\<rparr>)"
  by code_simp

text \<open>
  C1.  A value written by the builder at some offset is read back unchanged from that
  offset, whatever was written before and after it, as long as the buffer is one that
  fits in memory: the raw bytes of any trivially copyable value (\<open>write\<close>/\<open>read\<close> with
  its object representation \<open>rep\<close>), the four fixed-width integers, and a length-prefixed
  string shorter than \<open>2 ^ 32\<close> bytes.  The four writes of the packet builder example
  give 26 bytes, and its five reads return the values written and end at offset 26.
\<close>

theorem framing_round_trip:
  "(length (buffer b) + length rep + length post < 2 ^ 64 \<longrightarrow>
      PacketReader_read
        (reader_at (PacketBuilder_write (PacketBuilder_write b rep) post) (PacketBuilder_size b))
        (of_nat (length rep))
      = (Some rep, \<lparr>rdata = buffer b @ rep @ post,
                    rposition = PacketBuilder_size b + of_nat (length rep)\<rparr>))
   \<and> (length (buffer b) + 1 + length post < 2 ^ 64 \<longrightarrow>
      readUint8 (reader_at (PacketBuilder_write (writeUint8 b v8) post) (PacketBuilder_size b))
      = (Inr v8, \<lparr>rdata = buffer b @ [v8] @ post, rposition = PacketBuilder_size b + 1\<rparr>))
   \<and> (length (buffer b) + 2 + length post < 2 ^ 64 \<longrightarrow>
      readUint16 (reader_at (PacketBuilder_write (writeUint16 b v16) post) (PacketBuilder_size b))
      = (Inr v16, \<lparr>rdata = buffer b @ le_bytes 2 v16 @ post,
                   rposition = PacketBuilder_size b + 2\<rparr>))
   \<and> (length (buffer b) + 4 + length post < 2 ^ 64 \<longrightarrow>
      readUint32 (reader_at (PacketBuilder_write (writeUint32 b v32) post) (PacketBuilder_size b))
      = (Inr v32, \<lparr>rdata = buffer b @ le_bytes 4 v32 @ post,
                   rposition = PacketBuilder_size b + 4\<rparr>))
   \<and> (length (buffer b) + 8 + length post < 2 ^ 64 \<longrightarrow>
      readUint64 (reader_at (PacketBuilder_write (writeUint64 b v64) post) (PacketBuilder_size b))
      = (Inr v64, \<lparr>rdata = buffer b @ le_bytes 8 v64 @ post,
                   rposition = PacketBuilder_size b + 8\<rparr>))
   \<and> (length str < 2 ^ 32 \<and> length (buffer b) + 4 + length str + length post < 2 ^ 64 \<longrightarrow>
      readUint32_then_string
        (reader_at (PacketBuilder_write (writeString b str) post) (PacketBuilder_size b))
      = (Inr str,
         \<lparr>rdata = buffer b @ le_bytes 4 (of_nat (length str) :: uint32_t)
                    @ map byte_of_char str @ post,
          rposition = PacketBuilder_size b + 4 + of_nat (length str)\<rparr>))
   \<and> PacketBuilder_size example_builder = 26
   \<and> example_read (PacketReader_new (PacketBuilder_data example_builder))
      = (Inr (0x12345678, ''Hello, World!'', 314159, 255),
         \<lparr>rdata = buffer example_builder, rposition = 26\<rparr>)"
  using read_back_raw [of b rep post] read_back_uint8 [of b post v8]
    read_back_uint16 [of b post v16] read_back_uint32 [of b post v32]
    read_back_uint64 [of b post v64] read_back_string [of str b post]
    example_size example_values
  by blast

theorem framing_round_trip_witness:
  "length (buffer (writeUint8 PacketBuilder_new 7)) + length [1, 2, 3 :: uint8_t] + length [9 :: uint8_t] < 2 ^ 64
   \<and> fst (PacketReader_read
        (reader_at (PacketBuilder_write (PacketBuilder_write (writeUint8 PacketBuilder_new 7) [1, 2, 3]) [9]) 1) 3)
      = Some [1, 2, 3]
   \<and> fst (readUint8 (reader_at (PacketBuilder_write (writeUint8 (writeUint8 PacketBuilder_new 7) 5) [9]) 1))
      = Inr 5
   \<and> fst (readUint16 (reader_at (PacketBuilder_write (writeUint16 (writeUint8 PacketBuilder_new 7) 0xBEEF) [9]) 1))
      = Inr 0xBEEF
   \<and> fst (readUint32 (reader_at (PacketBuilder_write (writeUint32 (writeUint8 PacketBuilder_new 7) 0xDEADBEEF) [9]) 1))
      = Inr 0xDEADBEEF
   \<and> fst (readUint64 (reader_at (PacketBuilder_write (writeUint64 (writeUint8 PacketBuilder_new 7) 0x0123456789ABCDEF) [9]) 1))
      = Inr 0x0123456789ABCDEF
   \<and> length ''ping'' < (2 :: nat) ^ 32
   \<and> fst (readUint32_then_string
        (reader_at (PacketBuilder_write (writeString (writeUint8 PacketBuilder_new 7) ''ping'') [9]) 1))
      = Inr ''ping''"
  using framing_round_trip [of "writeUint8 PacketBuilder_new 7" "[1, 2, 3]" "[9]" 5 "0xBEEF"
      "0xDEADBEEF" "0x0123456789ABCDEF" "''ping''"]
  by (simp add: writeUint8_def PacketBuilder_new_def PacketBuilder_size_def)

subsection \<open>The cursor\<close>

lemma reader_ok_new: "length bytes < 2 ^ 64 \<Longrightarrow> reader_ok (PacketReader_new bytes)"
  by (simp add: reader_ok_def PacketReader_new_def)

lemma unat_PacketReader_size:
  "reader_ok r \<Longrightarrow> unat (PacketReader_size r) = length (rdata r)"
  by (simp add: reader_ok_def PacketReader_size_def unat_of_nat)

lemma reader_ok_le_size:
  assumes "length (rdata r) < 2 ^ 64" "p \<le> PacketReader_size r"
  shows "reader_ok (r\<lparr>rposition := p\<rparr>)"
proof -
  have "unat p \<le> unat (PacketReader_size r)" using assms(2) by (simp add: word_le_nat_alt)
  also have "unat (PacketReader_size r) = length (rdata r)"
    using assms(1) by (simp add: PacketReader_size_def unat_of_nat)
  finally show ?thesis using assms(1) by (simp add: reader_ok_def)
qed

text \<open>
  The cursor invariant \<open>position \<le> size\<close> is kept by every operation, also where the
  sum \<^verbatim>\<open>position_ + size\<close> wraps around.
\<close>

lemma reader_ok_preserved:
  assumes "reader_ok r"
  shows "reader_ok (snd (PacketReader_read r n))"
    and "reader_ok (snd (readUint8 r))"
    and "reader_ok (snd (readUint16 r))"
    and "reader_ok (snd (readUint32 r))"
    and "reader_ok (snd (readUint64 r))"
    and "reader_ok (snd (readString r n))"
    and "reader_ok (seek r p)"
    and "reader_ok (skip r n)"
    and "reader_ok (reset r)"
proof -
  have len: "length (rdata r) < 2 ^ 64" using assms by (simp add: reader_ok_def)
  note le = reader_ok_le_size [OF len]
  show rd: "reader_ok (snd (PacketReader_read r n))" for n
    using assms le [of "rposition r + n"] by (simp add: PacketReader_read_def not_less)
  have "rposition r < PacketReader_size r \<Longrightarrow> rposition r + 1 \<le> PacketReader_size r"
    by (simp add: inc_le)
  then show "reader_ok (snd (readUint8 r))"
    using assms le [of "rposition r + 1"] by (simp add: readUint8_def not_le)
  show "reader_ok (snd (readUint16 r))"
    using rd [of 2] by (cases "PacketReader_read r 2") (auto simp: readUint16_def split: option.splits)
  show "reader_ok (snd (readUint32 r))"
    using rd [of 4] by (cases "PacketReader_read r 4") (auto simp: readUint32_def split: option.splits)
  show "reader_ok (snd (readUint64 r))"
    using rd [of 8] by (cases "PacketReader_read r 8") (auto simp: readUint64_def split: option.splits)
  show "reader_ok (snd (readString r n))"
    using assms le [of "rposition r + n"] by (simp add: readString_def not_less)
  show "reader_ok (seek r p)"
    using le [of p] le [of "PacketReader_size r"] by (simp add: seek_def)
  show "reader_ok (skip r n)"
    using le [of "rposition r + n"] le [of "PacketReader_size r"] by (simp add: skip_def Let_def)
  show "reader_ok (reset r)"
    using le [of 0] by (simp add: reset_def)
qed

text \<open>Where the sum does not wrap, a read of more bytes than remain fails and moves nothing.\<close>

lemma underflow_without_wrap:
  assumes "reader_ok r" "unat (rposition r) + unat n < 2 ^ 64" "remaining r < n"
  shows "PacketReader_read r n = (None, r)"
    and "readString r n = (Inl (runtime_error ''Not enough data to read string''), r)"
proof -
  have sz: "unat (PacketReader_size r) = length (rdata r)"
    using assms(1) by (rule unat_PacketReader_size)
  have pl: "unat (rposition r) \<le> length (rdata r)" using assms(1) by (simp add: reader_ok_def)
  have "rposition r \<le> PacketReader_size r" using sz pl by (simp add: word_le_nat_alt)
  then have "unat (remaining r) = length (rdata r) - unat (rposition r)"
    by (simp add: remaining_def unat_sub sz)
  then have "length (rdata r) - unat (rposition r) < unat n"
    using assms(3) by (simp add: word_less_nat_alt)
  then have "length (rdata r) < unat (rposition r) + unat n" using pl by arith
  moreover have "unat (rposition r + n) = unat (rposition r) + unat n"
    using assms(2) unat_add_lem [of "rposition r" n] by simp
  ultimately have "PacketReader_size r < rposition r + n"
    by (simp add: word_less_nat_alt sz)
  then show "PacketReader_read r n = (None, r)"
    and "readString r n = (Inl (runtime_error ''Not enough data to read string''), r)"
    by (simp_all add: PacketReader_read_def readString_def)
qed

lemma readUint8_underflow:
  assumes "remaining r < 1" "rposition r \<le> PacketReader_size r"
  shows "readUint8 r = (Inl (runtime_error ''Not enough data to read uint8''), r)"
proof -
  have "remaining r = 0" using assms(1) by (simp add: word_less_1)
  then have "PacketReader_size r = rposition r" by (simp add: remaining_def)
  then show ?thesis by (simp add: readUint8_def)
qed

text \<open>
  \<open>readString\<close> of more bytes than remain fails and moves nothing also where the sum
  wraps: the check does not fire then, but the length is beyond what a string can hold and
  the constructor throws before the cursor moves.
\<close>

lemma readString_underflow_any_sum:
  assumes "reader_ok r" "length (rdata r) \<le> unat string_max_size" "remaining r < n"
  shows "snd (readString r n) = r \<and> isl (fst (readString r n))"
proof (cases "unat (rposition r) + unat n < 2 ^ 64")
  case True
  from underflow_without_wrap(2) [OF assms(1) True assms(3)] show ?thesis by simp
next
  case False
  have "unat (rposition r) \<le> length (rdata r)" using assms(1) by (simp add: reader_ok_def)
  with assms(2) False have "unat string_max_size < unat n"
    by (simp add: string_max_size_def)
  then have "string_max_size < n" by (simp add: word_less_nat_alt)
  then show ?thesis by (simp add: readString_def)
qed

text \<open>\<open>seek\<close> clamps; \<open>skip\<close> clamps where the sum does not wrap.\<close>

lemma seek_clamps:
  assumes "reader_ok r"
  shows "unat (rposition (seek r p)) = min (unat p) (length (rdata r))"
  using unat_PacketReader_size [OF assms]
  by (auto simp: seek_def word_less_nat_alt min_def)

lemma skip_clamps_without_wrap:
  assumes "reader_ok r" "unat (rposition r) + unat n < 2 ^ 64"
  shows "unat (rposition (skip r n)) = min (unat (rposition r) + unat n) (length (rdata r))"
proof -
  have "unat (rposition r + n) = unat (rposition r) + unat n"
    using assms(2) unat_add_lem [of "rposition r" n] by simp
  then show ?thesis
    using unat_PacketReader_size [OF assms(1)]
    by (auto simp: skip_def Let_def word_less_nat_alt min_def)
qed

text \<open>
  C2.  A reader over four bytes has read one of them, so that three remain.  A read of
  \<open>2 ^ 64 - 1\<close> bytes asks for more than remain, but \<^verbatim>\<open>position_ + size\<close> wraps
  around to 0, the check \<^verbatim>\<open>position_ + size > data_.size()\<close> does not fire, the
  read reports success and the cursor moves back to 0: four bytes remain afterwards.
\<close>

theorem read_size_wraps_past_check:
  "remaining (snd (readUint8 (PacketReader_new [1, 2, 3, 4]))) = 3
   \<and> remaining (snd (readUint8 (PacketReader_new [1, 2, 3, 4]))) < 0xFFFFFFFFFFFFFFFF
   \<and> PacketReader_read (snd (readUint8 (PacketReader_new [1, 2, 3, 4]))) 0xFFFFFFFFFFFFFFFF
     = (Some [2, 3, 4], \<lparr>rdata = [1, 2, 3, 4], rposition = 0\<rparr>)
   \<and> remaining (snd (PacketReader_read (snd (readUint8 (PacketReader_new [1, 2, 3, 4])))
       0xFFFFFFFFFFFFFFFF)) = 4"
  by (simp add: readUint8_def PacketReader_read_def PacketReader_new_def PacketReader_size_def
      remaining_def memcpy_from_def)

text \<open>
  C8.  A reader over four bytes stands at offset 3.  \<open>skip\<close> of \<open>2 ^ 64 - 1\<close> bytes
  computes \<^verbatim>\<open>position_ + bytes\<close>, which wraps around to 2, and leaves the cursor
  at 2, not at the size 4 that clamping \<open>position + n\<close> gives; a read of that many bytes
  succeeds and moves the cursor back by one.
\<close>

theorem skip_sum_wraps:
  "rposition (seek (PacketReader_new [1, 2, 3, 4]) 3) = 3
   \<and> rposition (skip (seek (PacketReader_new [1, 2, 3, 4]) 3) 0xFFFFFFFFFFFFFFFF) = 2
   \<and> min (unat (3 :: size_t) + unat (0xFFFFFFFFFFFFFFFF :: size_t)) (length [1, 2, 3, 4 :: uint8_t]) = 4
   \<and> PacketReader_read (seek (PacketReader_new [1, 2, 3, 4]) 3) 0xFFFFFFFFFFFFFFFF
     = (Some [4], \<lparr>rdata = [1, 2, 3, 4], rposition = 2\<rparr>)"
  by (simp add: seek_def skip_def PacketReader_read_def PacketReader_new_def PacketReader_size_def
      memcpy_from_def)

section \<open>Properties of the dispatcher\<close>

lemma invoke_each_append:
  "invoke_each (hs @ hs') event s = invoke_each hs' event (invoke_each hs event s)"
  by (induction hs arbitrary: s) auto

lemma invoke_each_fold: "invoke_each hs event s = fold (\<lambda>handler. handler event) hs s"
  by (induction hs arbitrary: s) auto

lemma receiveHandlers_register:
  "receiveHandlers (register reg d) = receiveHandlers d @ global_handlers [reg]"
  by (cases reg) (simp_all add: onReceive_def onReceive_channel_def)

lemma receiveHandlers_register_all:
  "receiveHandlers (register_all regs d) = receiveHandlers d @ global_handlers regs"
proof (induction regs arbitrary: d)
  case Nil
  show ?case by simp
next
  case (Cons reg regs)
  show ?case by (cases reg) (simp_all add: Cons onReceive_def onReceive_channel_def)
qed

lemma handlers_of_register:
  "handlers_of (register reg d) c = handlers_of d c @ scoped_handlers c [reg]"
  by (cases reg) (simp_all add: onReceive_def onReceive_channel_def handlers_of_def)

lemma handlers_of_register_all:
  "handlers_of (register_all regs d) c = handlers_of d c @ scoped_handlers c regs"
proof (induction regs arbitrary: d)
  case Nil
  show ?case by simp
next
  case (Cons reg regs)
  have "scoped_handlers c (reg # regs) = scoped_handlers c [reg] @ scoped_handlers c regs"
    by (cases reg) simp_all
  then show ?case by (simp add: Cons handlers_of_register)
qed

lemma handlers_of_new: "handlers_of EventDispatcher_new c = []"
  by (simp add: handlers_of_def EventDispatcher_new_def)

lemma receiveHandlers_new: "receiveHandlers EventDispatcher_new = []"
  by (simp add: EventDispatcher_new_def)

lemma dispatchReceive_handlers_of:
  "dispatchReceive d event s
   = invoke_each (handlers_of d (channel event)) event (invoke_each (receiveHandlers d) event s)"
  by (simp add: dispatchReceive_def handlers_of_def split: option.splits)

text \<open>
  C7.  Whatever the order in which global and channel-scoped receive handlers were
  registered on a fresh dispatcher, dispatching a receive event runs the global handlers
  one after the other in the order of their registration, each on the state that the one
  before it has left, and then the handlers scoped to the channel of the event, in the
  order of their registration; handlers scoped to other channels are not run.  With
  handlers \<open>A\<close> then \<open>B\<close> registered by \<open>onReceive\<close>, \<open>A\<close> has finished when \<open>B\<close> starts.
\<close>

theorem dispatch_order:
  "dispatchReceive (register_all regs EventDispatcher_new) event s
   = invoke_each (scoped_handlers (channel event) regs) event
       (invoke_each (global_handlers regs) event s)
   \<and> invoke_each (global_handlers regs @ scoped_handlers (channel event) regs) event s
     = fold (\<lambda>handler. handler event)
         (global_handlers regs @ scoped_handlers (channel event) regs) s
   \<and> dispatchReceive (onReceive B (onReceive A EventDispatcher_new)) event s
     = B event (A event s)"
proof -
  have "dispatchReceive (register_all regs EventDispatcher_new) event s
    = invoke_each (scoped_handlers (channel event) regs) event
        (invoke_each (global_handlers regs) event s)"
    by (simp add: dispatchReceive_handlers_of handlers_of_register_all
        receiveHandlers_register_all handlers_of_new receiveHandlers_new)
  moreover have "dispatchReceive (onReceive B (onReceive A EventDispatcher_new)) event s
    = B event (A event s)"
    by (simp add: dispatchReceive_def onReceive_def EventDispatcher_new_def)
  ultimately show ?thesis by (simp add: invoke_each_fold)
qed

theorem dispatch_order_witness:
  "dispatchReceive
     (register_all
        [Scoped 1 (logging_handler ''on channel 1''), Global (logging_handler ''A''),
         Scoped 2 (logging_handler ''on channel 2''), Global (logging_handler ''B''),
         Scoped 1 (logging_handler ''on channel 1 again'')]
        EventDispatcher_new)
     \<lparr>peerHandle = None, packetData = None, channel = 1\<rparr> []
   = [''A'', ''B'', ''on channel 1'', ''on channel 1 again'']"
  using dispatch_order [of
      "[Scoped 1 (logging_handler ''on channel 1''), Global (logging_handler ''A''),
        Scoped 2 (logging_handler ''on channel 2''), Global (logging_handler ''B''),
        Scoped 1 (logging_handler ''on channel 1 again'')]"
      "\<lparr>peerHandle = None, packetData = None, channel = 1\<rparr>" "[]"]
  by (simp add: logging_handler_def)

section \<open>Properties of a peer\<close>

text \<open>
  C4, as the claim states it, fails: for a peer whose native handle is in the engine's
  zombie state, \<open>state()\<close> reports \<open>zombie\<close>, which is not \<open>disconnected\<close>, and
  \<open>isDisconnected()\<close> is false.
\<close>

theorem zombie_not_collapsed:
  "state (enet_peers (quiet_world ENET_PEER_STATE_ZOMBIE) 7) = ENET_PEER_STATE_ZOMBIE
   \<and> Peer_state \<lparr>nativePeer = Some 7\<rparr> (quiet_world ENET_PEER_STATE_ZOMBIE) \<noteq> disconnected
   \<and> \<not> isDisconnected \<lparr>nativePeer = Some 7\<rparr> (quiet_world ENET_PEER_STATE_ZOMBIE)"
  by (simp add: Peer_state_def isDisconnected_def quiet_world_def)

lemma PeerState_of_disconnected:
  "PeerState_of st = disconnected \<longleftrightarrow> st = ENET_PEER_STATE_DISCONNECTED"
  by (cases st) simp_all

text \<open>
  C4, amended.  \<open>state()\<close> reports the state of the native handle as the engine has it:
  for a handle in the zombie state it reports \<open>zombie\<close>, and none of \<open>isDisconnected()\<close>,
  \<open>isConnected()\<close>, \<open>isConnecting()\<close>, \<open>isDisconnecting()\<close> is true.  \<open>isDisconnected()\<close>
  is true exactly for a null handle and for a handle in the engine's disconnected state.
\<close>

theorem zombie_reported_as_zombie:
  "(nativePeer p = Some np \<and> state (enet_peers w np) = ENET_PEER_STATE_ZOMBIE \<longrightarrow>
      Peer_state p w = zombie \<and> \<not> isDisconnected p w \<and> \<not> isConnected p w
      \<and> \<not> isConnecting p w \<and> \<not> isDisconnecting p w)
   \<and> (isDisconnected p w \<longleftrightarrow>
        (case nativePeer p of
           None \<Rightarrow> True
         | Some a \<Rightarrow> state (enet_peers w a) = ENET_PEER_STATE_DISCONNECTED))"
  by (auto simp: Peer_state_def isDisconnected_def isConnected_def isConnecting_def
      isDisconnecting_def PeerState_of_disconnected split: option.splits)

theorem zombie_reported_as_zombie_witness:
  "nativePeer \<lparr>nativePeer = Some 7\<rparr> = Some 7
   \<and> state (enet_peers (quiet_world ENET_PEER_STATE_ZOMBIE) 7) = ENET_PEER_STATE_ZOMBIE
   \<and> Peer_state \<lparr>nativePeer = Some 7\<rparr> (quiet_world ENET_PEER_STATE_ZOMBIE) = zombie
   \<and> \<not> isDisconnected \<lparr>nativePeer = Some 7\<rparr> (quiet_world ENET_PEER_STATE_ZOMBIE)
   \<and> isDisconnected \<lparr>nativePeer = Some 7\<rparr> (quiet_world ENET_PEER_STATE_DISCONNECTED)
   \<and> isDisconnected \<lparr>nativePeer = None\<rparr> (quiet_world ENET_PEER_STATE_ZOMBIE)"
  using zombie_reported_as_zombie [of "\<lparr>nativePeer = Some 7\<rparr>" 7 "quiet_world ENET_PEER_STATE_ZOMBIE"]
    zombie_reported_as_zombie [of "\<lparr>nativePeer = Some 7\<rparr>" 7 "quiet_world ENET_PEER_STATE_DISCONNECTED"]
    zombie_reported_as_zombie [of "\<lparr>nativePeer = None\<rparr>" 7 "quiet_world ENET_PEER_STATE_ZOMBIE"]
  by (simp add: quiet_world_def)

text \<open>
  C5.  On a peer whose native handle is null, \<open>send\<close> returns false without calling the
  engine (the packet handed over, if any, is destroyed with the function's parameter),
  \<open>state()\<close> is \<open>disconnected\<close>, \<open>disconnect\<close>, \<open>disconnectNow\<close>, \<open>disconnectLater\<close>,
  \<open>ping\<close>, \<open>timeout\<close> and \<open>reset\<close> change nothing, \<open>endpoint()\<close> is the empty host with port
  0, the round trip time is 0, and of the four state queries only \<open>isDisconnected()\<close> is
  true.  None of these operations has a throwing path for a null handle.
\<close>

theorem null_handle_tolerated:
  assumes "nativePeer p = None"
  shows "Peer_send p ch pkt w = (False, unique_ptr_destroy pkt w)
   \<and> Peer_send p ch None w = (False, w)
   \<and> Peer_state p w = disconnected
   \<and> Peer_disconnect p d w = w
   \<and> Peer_disconnectNow p d w = w
   \<and> Peer_disconnectLater p d w = w
   \<and> Peer_ping p w = w
   \<and> Peer_timeout p t1 t2 t3 w = w
   \<and> Peer_reset p w = w
   \<and> Peer_endpoint p w = Inr \<lparr>host = [], port = 0\<rparr>
   \<and> Peer_roundTripTime p w = 0
   \<and> isDisconnected p w \<and> \<not> isConnected p w \<and> \<not> isConnecting p w \<and> \<not> isDisconnecting p w"
  using assms
  by (simp add: Peer_send_def Peer_state_def Peer_disconnect_def Peer_disconnectNow_def
      Peer_disconnectLater_def Peer_ping_def Peer_timeout_def Peer_reset_def Peer_endpoint_def
      Peer_roundTripTime_def isDisconnected_def isConnected_def isConnecting_def
      isDisconnecting_def unique_ptr_destroy_def)

theorem null_handle_tolerated_witness:
  "nativePeer \<lparr>nativePeer = None\<rparr> = None
   \<and> fst (Peer_send \<lparr>nativePeer = None\<rparr> 0 (Some \<lparr>nativePacket = Some 3\<rparr>)
        (quiet_world ENET_PEER_STATE_CONNECTED)) = False
   \<and> calls (snd (Peer_send \<lparr>nativePeer = None\<rparr> 0 (Some \<lparr>nativePacket = Some 3\<rparr>)
        (quiet_world ENET_PEER_STATE_CONNECTED))) = [enet_packet_destroy 3]
   \<and> Peer_state \<lparr>nativePeer = None\<rparr> (quiet_world ENET_PEER_STATE_CONNECTED) = disconnected
   \<and> calls (Peer_disconnect \<lparr>nativePeer = None\<rparr> 0 (quiet_world ENET_PEER_STATE_CONNECTED)) = []
   \<and> calls (Peer_ping \<lparr>nativePeer = None\<rparr> (quiet_world ENET_PEER_STATE_CONNECTED)) = []"
  using null_handle_tolerated [of "\<lparr>nativePeer = None\<rparr>" 0 "Some \<lparr>nativePacket = Some 3\<rparr>"
      "quiet_world ENET_PEER_STATE_CONNECTED" 0]
  by (simp add: unique_ptr_destroy_def Packet_destroy_def engine_call_def quiet_world_def)

text \<open>
  C3, as the claim states it, fails.  A wrapper of the native packet 3 is sent on a live
  peer, or broadcast on a live host: the call succeeds, and the wrapper that
  \<^verbatim>\<open>pkt.release()\<close> leaves behind still holds the native handle 3.  A wrapper whose
  native handle is null, as the move constructor of \<^verbatim>\<open>Packet\<close> leaves one, is not
  refused either: \<open>send\<close> passes the null handle on to the engine and reports what the
  engine answers.
\<close>

theorem sent_wrapper_keeps_native_handle:
  "fst (Peer_send \<lparr>nativePeer = Some 7\<rparr> 0 (Some \<lparr>nativePacket = Some 3\<rparr>)
      (quiet_world ENET_PEER_STATE_CONNECTED)) = True
   \<and> map Packet_nativeHandle (released (snd (Peer_send \<lparr>nativePeer = Some 7\<rparr> 0
        (Some \<lparr>nativePacket = Some 3\<rparr>) (quiet_world ENET_PEER_STATE_CONNECTED)))) = [Some 3]
   \<and> map Packet_nativeHandle (released (Host_broadcast client_host 0
        (Some \<lparr>nativePacket = Some 3\<rparr>) (quiet_world ENET_PEER_STATE_CONNECTED))) = [Some 3]
   \<and> Packet_nativeHandle (snd (Packet_move \<lparr>nativePacket = Some 3\<rparr>)) = None
   \<and> fst (Peer_send \<lparr>nativePeer = Some 7\<rparr> 0 (Some (snd (Packet_move \<lparr>nativePacket = Some 3\<rparr>)))
        (quiet_world ENET_PEER_STATE_CONNECTED)) = True
   \<and> calls (snd (Peer_send \<lparr>nativePeer = Some 7\<rparr> 0
        (Some (snd (Packet_move \<lparr>nativePacket = Some 3\<rparr>)))
        (quiet_world ENET_PEER_STATE_CONNECTED))) = [enet_peer_send 7 0 None]"
  by (simp add: Peer_send_def Host_broadcast_def unique_ptr_release_def engine_call_def
      Packet_nativeHandle_def Packet_move_def quiet_world_def client_host_def Host_new_def
      Let_def)

lemma Peer_send_null_pointer: "Peer_send p ch None w = (False, w)"
  by (simp add: Peer_send_def unique_ptr_destroy_def split: option.splits)

lemma Host_broadcast_null_pointer: "Host_broadcast h ch None w = w"
  by (simp add: Host_broadcast_def unique_ptr_destroy_def split: option.splits)

lemma send_move_leaves_null: "fst (snd (send_move p ch var w)) = None"
  by (simp add: send_move_def split: prod.splits)

lemma Peer_send_live:
  "Peer_send \<lparr>nativePeer = Some np\<rparr> ch (Some \<lparr>nativePacket = Some native\<rparr>) w
   = (enet_peer_send_result w np ch (Some native) = 0,
      w\<lparr>calls := calls w @ [enet_peer_send np ch (Some native)],
        released := released w @ [\<lparr>nativePacket = Some native\<rparr>]\<rparr>)"
  by (simp add: Peer_send_def unique_ptr_release_def engine_call_def Packet_nativeHandle_def
      Let_def)

lemma Host_broadcast_live:
  "Host_broadcast (h\<lparr>nativeHost := Some nh\<rparr>) ch (Some \<lparr>nativePacket = Some native\<rparr>) w
   = w\<lparr>calls := calls w @ [enet_host_broadcast nh ch (Some native)],
       released := released w @ [\<lparr>nativePacket = Some native\<rparr>]\<rparr>"
  by (simp add: Host_broadcast_def unique_ptr_release_def engine_call_def
      Packet_nativeHandle_def Let_def)

text \<open>
  C3, amended.  A caller hands its \<^verbatim>\<open>unique_ptr<Packet>\<close> to \<open>send\<close> or
  \<open>broadcast\<close> by moving it, and its pointer is null afterwards, whatever the outcome.
  \<open>send\<close> and \<open>broadcast\<close> refuse a null pointer: \<open>send\<close> returns false, \<open>broadcast\<close>
  returns, and the world is as it was, so that sending or broadcasting the moved-from
  pointer again, on any peer or host and at any later time, reaches neither the engine
  nor a destructor.  The first transfer of a wrapper of a native packet to a live peer or
  host hands that packet to the engine once and releases the wrapper undestroyed, its
  native handle as it was; \<open>send\<close> reports whether the engine answered 0.
\<close>

theorem moved_pointer_single_use:
  "fst (snd (send_move p ch var w)) = None
   \<and> fst (broadcast_move h ch var w) = None
   \<and> Peer_send p' ch' None w' = (False, w')
   \<and> Host_broadcast h' ch' None w' = w'
   \<and> send_move p' ch' (fst (snd (send_move p ch var w))) w' = (False, None, w')
   \<and> broadcast_move h' ch' (fst (snd (send_move p ch var w))) w' = (None, w')
   \<and> send_move p' ch' (fst (broadcast_move h ch var w)) w' = (False, None, w')
   \<and> broadcast_move h' ch' (fst (broadcast_move h ch var w)) w' = (None, w')
   \<and> Peer_send \<lparr>nativePeer = Some np\<rparr> ch (Some \<lparr>nativePacket = Some native\<rparr>) w
     = (enet_peer_send_result w np ch (Some native) = 0,
        w\<lparr>calls := calls w @ [enet_peer_send np ch (Some native)],
          released := released w @ [\<lparr>nativePacket = Some native\<rparr>]\<rparr>)
   \<and> Host_broadcast (h\<lparr>nativeHost := Some nh\<rparr>) ch (Some \<lparr>nativePacket = Some native\<rparr>) w
     = w\<lparr>calls := calls w @ [enet_host_broadcast nh ch (Some native)],
         released := released w @ [\<lparr>nativePacket = Some native\<rparr>]\<rparr>"
  unfolding Peer_send_live Host_broadcast_live send_move_leaves_null
  by (simp add: send_move_def broadcast_move_def Peer_send_null_pointer
      Host_broadcast_null_pointer)

theorem moved_pointer_single_use_witness:
  "fst (send_move \<lparr>nativePeer = Some 7\<rparr> 0 (Some \<lparr>nativePacket = Some 3\<rparr>)
      (quiet_world ENET_PEER_STATE_CONNECTED)) = True
   \<and> fst (snd (send_move \<lparr>nativePeer = Some 7\<rparr> 0 (Some \<lparr>nativePacket = Some 3\<rparr>)
        (quiet_world ENET_PEER_STATE_CONNECTED))) = None
   \<and> calls (snd (snd (send_move \<lparr>nativePeer = Some 7\<rparr> 0 (Some \<lparr>nativePacket = Some 3\<rparr>)
        (quiet_world ENET_PEER_STATE_CONNECTED)))) = [enet_peer_send 7 0 (Some 3)]
   \<and> released (snd (snd (send_move \<lparr>nativePeer = Some 7\<rparr> 0 (Some \<lparr>nativePacket = Some 3\<rparr>)
        (quiet_world ENET_PEER_STATE_CONNECTED)))) = [\<lparr>nativePacket = Some 3\<rparr>]
   \<and> send_move \<lparr>nativePeer = Some 7\<rparr> 0
       (fst (snd (send_move \<lparr>nativePeer = Some 7\<rparr> 0 (Some \<lparr>nativePacket = Some 3\<rparr>)
          (quiet_world ENET_PEER_STATE_CONNECTED))))
       (snd (snd (send_move \<lparr>nativePeer = Some 7\<rparr> 0 (Some \<lparr>nativePacket = Some 3\<rparr>)
          (quiet_world ENET_PEER_STATE_CONNECTED))))
     = (False, None,
        snd (snd (send_move \<lparr>nativePeer = Some 7\<rparr> 0 (Some \<lparr>nativePacket = Some 3\<rparr>)
          (quiet_world ENET_PEER_STATE_CONNECTED))))"
proof -
  let ?p = "\<lparr>nativePeer = Some 7\<rparr>"
  let ?var = "Some \<lparr>nativePacket = Some 3\<rparr>"
  let ?w = "quiet_world ENET_PEER_STATE_CONNECTED"
  let ?w' = "snd (snd (send_move ?p 0 ?var ?w))"
  note t = moved_pointer_single_use [of ?p 0 ?var ?w client_host ?p 0 ?w' client_host 7 3 1]
  from t have null: "fst (snd (send_move ?p 0 ?var ?w)) = None" by (rule conjunct1)
  from t have again: "send_move ?p 0 (fst (snd (send_move ?p 0 ?var ?w))) ?w' = (False, None, ?w')"
    by blast
  from t have first: "Peer_send ?p 0 ?var ?w
     = (enet_peer_send_result ?w 7 0 (Some 3) = 0,
        ?w\<lparr>calls := calls ?w @ [enet_peer_send 7 0 (Some 3)],
          released := released ?w @ [\<lparr>nativePacket = Some 3\<rparr>]\<rparr>)"
    by blast
  have q: "enet_peer_send_result ?w 7 0 (Some 3) = 0" "calls ?w = []" "released ?w = []"
    by (simp_all add: quiet_world_def)
  have sm: "send_move ?p 0 ?var ?w
     = (True, None, ?w\<lparr>calls := [enet_peer_send 7 0 (Some 3)],
                       released := [\<lparr>nativePacket = Some 3\<rparr>]\<rparr>)"
    unfolding send_move_def first by (simp add: q)
  show ?thesis
    using again by (simp add: sm)
qed

section \<open>Properties of the host\<close>

subsection \<open>Reference counts\<close>

lemma expired_shared_copy: "\<not> expired w i \<Longrightarrow> expired (shared_copy i w) j = expired w j"
  by (simp add: expired_def shared_copy_def)

lemma shared_copy_commute:
  "shared_copy i (shared_copy j w) = shared_copy j (shared_copy i w)"
  by (cases "i = j") (simp_all add: shared_copy_def fun_upd_twist)

lemma shared_release_copy: "shared_release i (shared_copy i w) = w"
  by (simp add: shared_release_def shared_copy_def)

lemma fold_shared_copy_commute:
  "fold shared_copy xs (shared_copy i w) = shared_copy i (fold shared_copy xs w)"
proof (induction xs arbitrary: w)
  case Nil
  show ?case by simp
next
  case (Cons x xs)
  show ?case by (simp add: shared_copy_commute [of x i] Cons)
qed

lemma release_each_copies: "release_each xs (fold shared_copy xs w) = w"
proof (induction xs arbitrary: w)
  case Nil
  show ?case by simp
next
  case (Cons x xs)
  show ?case by (simp add: fold_shared_copy_commute shared_release_copy Cons)
qed

lemma peer_objs_fold_shared_copy: "peer_objs (fold shared_copy xs w) = peer_objs w"
  by (induction xs arbitrary: w) (simp_all add: shared_copy_def)

subsection \<open>The registry\<close>

lemma peerCount_loop_eq:
  "peerCount_loop w xs count = count + length (filter (\<lambda>i. \<not> expired w i) xs)"
  by (induction xs arbitrary: count) simp_all

lemma peerCount_eq: "peerCount h w = length (filter (\<lambda>i. \<not> expired w i) (peers h))"
  by (simp add: peerCount_def peerCount_loop_eq)

lemma getPeers_loop_eq:
  "getPeers_loop xs w
   = (filter (\<lambda>i. \<not> expired w i) xs, filter (\<lambda>i. \<not> expired w i) xs,
      fold shared_copy (filter (\<lambda>i. \<not> expired w i) xs) w)"
proof (induction xs arbitrary: w)
  case Nil
  show ?case by simp
next
  case (Cons x xs)
  show ?case
  proof (cases "expired w x")
    case True
    then show ?thesis by (simp add: Cons)
  next
    case False
    then have "(\<lambda>i. \<not> expired (shared_copy x w) i) = (\<lambda>i. \<not> expired w i)"
      by (simp add: expired_shared_copy)
    with False show ?thesis by (simp add: Cons)
  qed
qed

lemma getPeers_eq:
  "getPeers h w
   = (filter (\<lambda>i. \<not> expired w i) (peers h),
      h\<lparr>peers := filter (\<lambda>i. \<not> expired w i) (peers h)\<rparr>,
      fold shared_copy (filter (\<lambda>i. \<not> expired w i) (peers h)) w)"
  by (simp add: getPeers_def getPeers_loop_eq)

lemma use_count_release_each_same:
  "use_count (release_each (replicate n i) w) i = use_count w i - n"
  by (induction n arbitrary: w) (simp_all add: shared_release_def)

lemma use_count_release_each_other:
  "j \<noteq> i \<Longrightarrow> use_count (release_each (replicate n i) w) j = use_count w j"
  by (induction n arbitrary: w) (simp_all add: shared_release_def)

lemma release_each_keeps:
  "calls (release_each xs w) = calls w" "pending (release_each xs w) = pending w"
  "app (release_each xs w) = app w"
  by (induction xs arbitrary: w) (simp_all add: shared_release_def)

lemma length_filter_drop:
  assumes "P i" "\<And>j. j \<noteq> i \<Longrightarrow> Q j = P j" "\<not> Q i"
  shows "length (filter Q xs) + count_list xs i = length (filter P xs)"
  using assms by (induction xs) auto

text \<open>
  C6.  A wrapper \<open>i\<close> is registered and alive.  Once every strong reference to it has
  been released, with no event processed, \<open>getPeers\<close> returns exactly the entries that
  have not expired, \<open>i\<close> is not among them, the registry that \<open>getPeers\<close> leaves holds only
  those entries, and \<open>peerCount\<close> is the number of entries that have not expired, lower
  than before by the number of entries for \<open>i\<close>.
\<close>

theorem weak_registry_pruning:
  assumes "i \<in> set (peers h)" and "\<not> expired w0 i"
    and "w = release_each (replicate (use_count w0 i) i) w0"
  shows "expired w i
   \<and> fst (getPeers h w) = filter (\<lambda>j. \<not> expired w j) (peers h)
   \<and> i \<notin> set (fst (getPeers h w))
   \<and> peers (fst (snd (getPeers h w))) = filter (\<lambda>j. \<not> expired w j) (peers h)
   \<and> i \<notin> set (peers (fst (snd (getPeers h w))))
   \<and> peerCount h w = length (filter (\<lambda>j. \<not> expired w j) (peers h))
   \<and> peerCount h w + count_list (peers h) i = peerCount h w0
   \<and> peerCount h w < peerCount h w0
   \<and> pending w = pending w0 \<and> calls w = calls w0"
proof -
  have ex: "expired w i"
    by (simp add: assms(3) expired_def use_count_release_each_same)
  have other: "\<And>j. j \<noteq> i \<Longrightarrow> (\<not> expired w j) = (\<not> expired w0 j)"
    by (simp add: assms(3) expired_def use_count_release_each_other)
  have cnt: "peerCount h w + count_list (peers h) i = peerCount h w0"
    unfolding peerCount_eq
    by (rule length_filter_drop) (use assms(2) other ex in auto)
  have "count_list (peers h) i \<noteq> 0"
    using assms(1) by (simp add: count_list_0_iff)
  with cnt have less: "peerCount h w < peerCount h w0" by arith
  show ?thesis
    using ex cnt less
    by (simp add: getPeers_eq peerCount_eq assms(3) release_each_keeps)
qed

theorem weak_registry_pruning_witness:
  "0 \<in> set (peers (fst two_connections))
   \<and> \<not> expired (snd two_connections) 0
   \<and> peerCount (fst two_connections) (snd two_connections) = 2
   \<and> peerCount (fst two_connections)
       (release_each (replicate (use_count (snd two_connections) 0) 0) (snd two_connections)) = 1
   \<and> fst (getPeers (fst two_connections)
       (release_each (replicate (use_count (snd two_connections) 0) 0) (snd two_connections))) = [1]
   \<and> peers (fst (snd (getPeers (fst two_connections)
       (release_each (replicate (use_count (snd two_connections) 0) 0) (snd two_connections))))) = [1]"
proof -
  have p: "peers (fst two_connections) = [0, 1]"
    by (simp add: two_connections_def one_connection_def after_connect_def Host_connect_def
        toEnetAddress_def make_shared_Peer_def engine_call_def client_host_def Host_new_def
        quiet_world_def)
  have u: "use_count (snd two_connections) = (\<lambda>i. 0)(0 := 1, 1 := 1)"
    by (simp add: two_connections_def one_connection_def after_connect_def Host_connect_def
        toEnetAddress_def make_shared_Peer_def engine_call_def client_host_def Host_new_def
        quiet_world_def)
  have a: "0 \<in> set (peers (fst two_connections))" by (simp add: p)
  have b: "\<not> expired (snd two_connections) 0" by (simp add: expired_def u)
  from weak_registry_pruning [OF a b refl] show ?thesis
    using a b by (simp add: p u expired_def peerCount_eq shared_release_def)
qed

subsection \<open>Events\<close>

lemma find_native_None:
  "(\<And>i. i \<in> set xs \<Longrightarrow> Peer_nativeHandle (peer_objs w i) \<noteq> native)
   \<Longrightarrow> find_native w native xs = None"
  by (induction xs) simp_all

lemma findPeerByNative_None:
  assumes "\<And>i. i \<in> set (peers h) \<Longrightarrow> \<not> expired w i
             \<Longrightarrow> Peer_nativeHandle (peer_objs w i) \<noteq> native"
  shows "findPeerByNative h native w
         = (None, h\<lparr>peers := filter (\<lambda>i. \<not> expired w i) (peers h)\<rparr>, w)"
proof -
  let ?live = "filter (\<lambda>i. \<not> expired w i) (peers h)"
  have "find_native (fold shared_copy ?live w) native ?live = None"
    by (rule find_native_None) (use assms in \<open>simp add: peer_objs_fold_shared_copy\<close>)
  then show ?thesis
    by (simp add: findPeerByNative_def getPeers_eq release_each_copies)
qed

lemma processEvent_unregistered:
  assumes "event_type event = ENET_EVENT_TYPE_DISCONNECT
           \<or> event_type event = ENET_EVENT_TYPE_RECEIVE"
    and "\<And>i. i \<in> set (peers h) \<Longrightarrow> \<not> expired w i
           \<Longrightarrow> Peer_nativeHandle (peer_objs w i) \<noteq> Some (event_peer event)"
  shows "processEvent h event w
         = (None,
            (case dispatcher h of
               None \<Rightarrow> h
             | Some d \<Rightarrow> h\<lparr>peers := filter (\<lambda>i. \<not> expired w i) (peers h)\<rparr>),
            w)"
  using assms(1) findPeerByNative_None [of h w "Some (event_peer event)", OF assms(2)]
  by (auto simp: processEvent_def split: option.splits)

text \<open>
  C10.  The engine delivers a disconnect or a receive event for a native peer that no
  live wrapper in the registry wraps.  \<open>processEvent\<close> throws nothing and leaves the
  world exactly as it was: whatever handlers are registered, none has run, and the engine
  has not been called, in particular no \<^verbatim>\<open>enet_packet_destroy\<close>, which the
  destruction of a wrapper of the packet would issue.  Only the expired entries are gone
  from the registry.  \<open>service\<close> returns the result code of the engine, the event being
  consumed.
\<close>

theorem unregistered_peer_event_dropped:
  assumes "event_type event = ENET_EVENT_TYPE_DISCONNECT
           \<or> event_type event = ENET_EVENT_TYPE_RECEIVE"
    and "\<forall>i \<in> set (peers h). \<not> expired w i
           \<longrightarrow> Peer_nativeHandle (peer_objs w i) \<noteq> Some (event_peer event)"
    and "nativeHost h = Some nh" and "pending w = (result, event) # rest" and "0 < result"
  shows "processEvent h event w
         = (None,
            (case dispatcher h of
               None \<Rightarrow> h
             | Some d \<Rightarrow> h\<lparr>peers := filter (\<lambda>i. \<not> expired w i) (peers h)\<rparr>),
            w)
   \<and> service h w
     = (Inr result,
        (case dispatcher h of
           None \<Rightarrow> h
         | Some d \<Rightarrow> h\<lparr>peers := filter (\<lambda>i. \<not> expired w i) (peers h)\<rparr>),
        w\<lparr>pending := rest\<rparr>)
   \<and> app (snd (snd (service h w))) = app w
   \<and> calls (snd (snd (service h w))) = calls w
   \<and> use_count (snd (snd (service h w))) = use_count w"
proof -
  have ex: "\<And>i. expired (w\<lparr>pending := rest\<rparr>) i = expired w i"
    by (simp add: expired_def)
  have p1: "processEvent h event w
         = (None,
            (case dispatcher h of
               None \<Rightarrow> h
             | Some d \<Rightarrow> h\<lparr>peers := filter (\<lambda>i. \<not> expired w i) (peers h)\<rparr>),
            w)"
    by (rule processEvent_unregistered) (use assms(1,2) in auto)
  have p2: "processEvent h event (w\<lparr>pending := rest\<rparr>)
         = (None,
            (case dispatcher h of
               None \<Rightarrow> h
             | Some d \<Rightarrow> h\<lparr>peers := filter (\<lambda>i. \<not> expired w i) (peers h)\<rparr>),
            w\<lparr>pending := rest\<rparr>)"
    using processEvent_unregistered [of event h "w\<lparr>pending := rest\<rparr>"] assms(1,2)
    by (simp add: ex cong: option.case_cong)
  have s: "service h w
     = (Inr result,
        (case dispatcher h of
           None \<Rightarrow> h
         | Some d \<Rightarrow> h\<lparr>peers := filter (\<lambda>i. \<not> expired w i) (peers h)\<rparr>),
        w\<lparr>pending := rest\<rparr>)"
    using assms(3,4,5) by (simp add: service_def p2)
  show ?thesis
    unfolding s using p1 by simp
qed

theorem unregistered_peer_event_dropped_witness:
  "event_type (engine_event ENET_EVENT_TYPE_RECEIVE 9 (Some 3)) = ENET_EVENT_TYPE_RECEIVE
   \<and> peers (fst one_connection) = [0]
   \<and> Peer_nativeHandle (peer_objs (snd one_connection) 0) = Some 7
   \<and> fst (service (fst one_connection)
        (snd one_connection\<lparr>pending := [(1, engine_event ENET_EVENT_TYPE_RECEIVE 9 (Some 3))]\<rparr>)) = Inr 1
   \<and> app (snd (snd (service (fst one_connection)
        (snd one_connection\<lparr>pending := [(1, engine_event ENET_EVENT_TYPE_RECEIVE 9 (Some 3))]\<rparr>)))) = []
   \<and> calls (snd (snd (service (fst one_connection)
        (snd one_connection\<lparr>pending := [(1, engine_event ENET_EVENT_TYPE_RECEIVE 9 (Some 3))]\<rparr>))))
     = [enet_host_connect 1 \<lparr>address_host = 0, address_port = 7777\<rparr> 1 0]
   \<and> app (snd (snd (service (fst one_connection)
        (snd one_connection\<lparr>pending := [(1, engine_event ENET_EVENT_TYPE_RECEIVE 7 (Some 3))]\<rparr>)))) = [''receive'']
   \<and> calls (snd (snd (service (fst one_connection)
        (snd one_connection\<lparr>pending := [(1, engine_event ENET_EVENT_TYPE_RECEIVE 7 (Some 3))]\<rparr>))))
     = [enet_host_connect 1 \<lparr>address_host = 0, address_port = 7777\<rparr> 1 0, enet_packet_destroy 3]"
proof -
  let ?ev = "engine_event ENET_EVENT_TYPE_RECEIVE 9 (Some 3)"
  let ?w = "snd one_connection\<lparr>pending := [(1, ?ev)]\<rparr>"
  have h: "fst one_connection = client_host\<lparr>peers := [0]\<rparr>"
    by (simp add: one_connection_def after_connect_def Host_connect_def
        toEnetAddress_def make_shared_Peer_def engine_call_def client_host_def Host_new_def
        quiet_world_def)
  have w: "snd one_connection
    = (quiet_world ENET_PEER_STATE_CONNECTING)
        \<lparr>calls := [enet_host_connect 1 \<lparr>address_host = 0, address_port = 7777\<rparr> 1 0],
         peer_objs := (\<lambda>i. \<lparr>nativePeer = None\<rparr>)(0 := \<lparr>nativePeer = Some 7\<rparr>),
         use_count := (\<lambda>i. 0)(0 := 1), next_obj := 1\<rparr>"
    by (simp add: one_connection_def after_connect_def Host_connect_def
        toEnetAddress_def make_shared_Peer_def engine_call_def client_host_def Host_new_def
        quiet_world_def)
  have a: "event_type ?ev = ENET_EVENT_TYPE_DISCONNECT \<or> event_type ?ev = ENET_EVENT_TYPE_RECEIVE"
    by (simp add: engine_event_def)
  have b: "\<forall>i \<in> set (peers (fst one_connection)). \<not> expired ?w i
             \<longrightarrow> Peer_nativeHandle (peer_objs ?w i) \<noteq> Some (event_peer ?ev)"
    by (simp add: h w Peer_nativeHandle_def engine_event_def)
  have c: "nativeHost (fst one_connection) = Some 1"
    by (simp add: h client_host_def Host_new_def)
  have d: "pending ?w = (1, ?ev) # []" by simp
  have e: "(0 :: int) < 1" by simp
  have registered:
    "app (snd (snd (service (fst one_connection)
        (snd one_connection\<lparr>pending := [(1, engine_event ENET_EVENT_TYPE_RECEIVE 7 (Some 3))]\<rparr>)))) = [''receive'']
     \<and> calls (snd (snd (service (fst one_connection)
        (snd one_connection\<lparr>pending := [(1, engine_event ENET_EVENT_TYPE_RECEIVE 7 (Some 3))]\<rparr>))))
       = [enet_host_connect 1 \<lparr>address_host = 0, address_port = 7777\<rparr> 1 0, enet_packet_destroy 3]"
    by (simp add: h w service_def processEvent_def findPeerByNative_def getPeers_def
        client_host_def Host_new_def quiet_world_def engine_event_def expired_def
        shared_copy_def shared_release_def Peer_nativeHandle_def Packet_fromNative_def
        dispatchReceive_def onReceive_def onDisconnect_def onConnect_def EventDispatcher_new_def
        log_receive_def unique_ptr_destroy_def Packet_destroy_def engine_call_def)
  from unregistered_peer_event_dropped [OF a b c d e] show ?thesis
    using registered
    by (simp add: h w engine_event_def quiet_world_def Peer_nativeHandle_def)
qed

text \<open>
  C9.  A host calls \<open>connect\<close>, which registers the wrapper \<open>i1\<close> of the native peer that
  the engine returns.  Later \<open>service\<close> finds the connect event of that native peer
  pending.  Then the registry has two entries more than before \<open>connect\<close>: \<open>i1\<close> and a
  second wrapper, distinct from \<open>i1\<close>, created by \<open>processEvent\<close> (also when building the
  event throws).  Where the connect handlers leave the \<^verbatim>\<open>Peer\<close> objects alone,
  both wrap the native peer of the event.  In any world in which both are strongly held,
  \<open>peerCount\<close> counts both, and for a host with no other peer it is 2 and \<open>getPeers\<close>
  returns the two wrappers.
\<close>

theorem connect_registers_twice:
  assumes conn: "Host_connect h remoteEndpoint channels connectData w = (Inr i1, h1, w1)"
    and disp: "dispatcher h = Some d"
    and ev: "event_type event = ENET_EVENT_TYPE_CONNECT"
    and match: "Peer_nativeHandle (peer_objs w1 i1) = Some (event_peer event)"
    and later: "next_obj w1 \<le> next_obj w2" "peer_objs w2 i1 = peer_objs w1 i1"
    and pend: "pending w2 = (result, event) # rest" "0 < result"
    and srv: "service h1 w2 = (r, h2, w3)"
  shows "next_obj w2 \<noteq> i1
   \<and> peers h2 = peers h @ [i1, next_obj w2]
   \<and> ((\<forall>e s. peer_objs (dispatchConnect d e s) = peer_objs s) \<longrightarrow>
        Peer_nativeHandle (peer_objs w3 i1) = Some (event_peer event)
        \<and> Peer_nativeHandle (peer_objs w3 (next_obj w2)) = Some (event_peer event))
   \<and> (\<forall>w4. \<not> expired w4 i1 \<and> \<not> expired w4 (next_obj w2) \<longrightarrow>
        peerCount h2 w4 = peerCount h w4 + 2
        \<and> (peers h = [] \<longrightarrow> peerCount h2 w4 = 2 \<and> fst (getPeers h2 w4) = [i1, next_obj w2]))"
proof -
  from conn obtain nh where nh: "nativeHost h = Some nh"
    by (auto simp: Host_connect_def split: option.splits)
  from conn have i1: "i1 = next_obj w" and h1: "h1 = h\<lparr>peers := peers h @ [i1]\<rparr>"
    and n1: "next_obj w1 = Suc i1"
    by (auto simp: Host_connect_def make_shared_Peer_def engine_call_def Let_def nh
        split: option.splits sum.splits)
  have ne: "next_obj w2 \<noteq> i1" using later(1) n1 by simp
  let ?w = "w2\<lparr>pending := rest\<rparr>"
  let ?i2 = "next_obj w2"
  obtain e' h' w' where pe: "processEvent h1 event ?w = (e', h', w')"
    by (cases "processEvent h1 event ?w") auto
  have nh1: "nativeHost h1 = Some nh" by (simp add: h1 nh)
  from srv have hw: "h2 = h'" "w3 = w'"
    using pend by (cases e'; simp add: service_def nh1 pe)+
  from pe have ph: "peers h' = peers h @ [i1, ?i2]"
    by (auto simp: processEvent_def h1 disp ev make_shared_Peer_def Let_def split: sum.splits)
  have objs: "peer_objs w' = (peer_objs w2)(?i2 := \<lparr>nativePeer = Some (event_peer event)\<rparr>)"
    if "\<forall>e s. peer_objs (dispatchConnect d e s) = peer_objs s"
    using pe that
    by (auto simp: processEvent_def h1 disp ev make_shared_Peer_def Let_def shared_release_def
        shared_copy_def split: sum.splits)
  have cnt: "peerCount h2 w4 = peerCount h w4 + 2"
    if "\<not> expired w4 i1 \<and> \<not> expired w4 ?i2" for w4
    using that by (simp add: peerCount_eq hw ph)
  have gp: "fst (getPeers h2 w4) = [i1, ?i2]"
    if "\<not> expired w4 i1 \<and> \<not> expired w4 ?i2" "peers h = []" for w4
    using that by (simp add: getPeers_eq hw ph)
  show ?thesis
    using ne ph objs cnt gp match later(2)
    by (auto simp: hw Peer_nativeHandle_def peerCount_eq)
qed

theorem connect_registers_twice_witness:
  "Host_connect client_host \<lparr>host = ''server'', port = 7777\<rparr> 1 0
     (quiet_world ENET_PEER_STATE_CONNECTING)
   = (Inr 0, fst one_connection, snd one_connection)
   \<and> Peer_nativeHandle (peer_objs (snd one_connection) 0) = Some 7
   \<and> peers (fst (snd (service (fst one_connection)
        (snd one_connection\<lparr>pending := [(1, engine_event ENET_EVENT_TYPE_CONNECT 7 None)]\<rparr>))))
     = [0, 1]
   \<and> \<not> expired (snd (snd (service (fst one_connection)
        (snd one_connection\<lparr>pending := [(1, engine_event ENET_EVENT_TYPE_CONNECT 7 None)]\<rparr>)))) 0
   \<and> \<not> expired (snd (snd (service (fst one_connection)
        (snd one_connection\<lparr>pending := [(1, engine_event ENET_EVENT_TYPE_CONNECT 7 None)]\<rparr>)))) 1
   \<and> Peer_nativeHandle (peer_objs (snd (snd (service (fst one_connection)
        (snd one_connection\<lparr>pending := [(1, engine_event ENET_EVENT_TYPE_CONNECT 7 None)]\<rparr>)))) 1)
     = Some 7
   \<and> peerCount
       (fst (snd (service (fst one_connection)
          (snd one_connection\<lparr>pending := [(1, engine_event ENET_EVENT_TYPE_CONNECT 7 None)]\<rparr>))))
       (snd (snd (service (fst one_connection)
          (snd one_connection\<lparr>pending := [(1, engine_event ENET_EVENT_TYPE_CONNECT 7 None)]\<rparr>))))
     = 2
   \<and> fst (getPeers
       (fst (snd (service (fst one_connection)
          (snd one_connection\<lparr>pending := [(1, engine_event ENET_EVENT_TYPE_CONNECT 7 None)]\<rparr>))))
       (snd (snd (service (fst one_connection)
          (snd one_connection\<lparr>pending := [(1, engine_event ENET_EVENT_TYPE_CONNECT 7 None)]\<rparr>)))))
     = [0, 1]"
proof -
  let ?ev = "engine_event ENET_EVENT_TYPE_CONNECT 7 None"
  let ?w2 = "snd one_connection\<lparr>pending := [(1, ?ev)]\<rparr>"
  let ?d = "onReceive log_receive (onDisconnect log_disconnect
          (onConnect retain_peer EventDispatcher_new))"
  obtain r h2 w3 where srv: "service (fst one_connection) ?w2 = (r, h2, w3)"
    by (cases "service (fst one_connection) ?w2") auto
  have w: "snd one_connection
    = (quiet_world ENET_PEER_STATE_CONNECTING)
        \<lparr>calls := [enet_host_connect 1 \<lparr>address_host = 0, address_port = 7777\<rparr> 1 0],
         peer_objs := (\<lambda>i. \<lparr>nativePeer = None\<rparr>)(0 := \<lparr>nativePeer = Some 7\<rparr>),
         use_count := (\<lambda>i. 0)(0 := 1), next_obj := 1\<rparr>"
    by (simp add: one_connection_def after_connect_def Host_connect_def
        toEnetAddress_def make_shared_Peer_def engine_call_def client_host_def Host_new_def
        quiet_world_def)
  have h: "fst one_connection = client_host\<lparr>peers := [0]\<rparr>"
    by (simp add: one_connection_def after_connect_def Host_connect_def
        toEnetAddress_def make_shared_Peer_def engine_call_def client_host_def Host_new_def
        quiet_world_def)
  have conn: "Host_connect client_host \<lparr>host = ''server'', port = 7777\<rparr> 1 0
     (quiet_world ENET_PEER_STATE_CONNECTING) = (Inr 0, fst one_connection, snd one_connection)"
    by (simp add: one_connection_def after_connect_def Host_connect_def
        toEnetAddress_def make_shared_Peer_def engine_call_def client_host_def Host_new_def
        quiet_world_def)
  have disp: "dispatcher client_host = Some ?d"
    by (simp add: client_host_def Host_new_def)
  have ev: "event_type ?ev = ENET_EVENT_TYPE_CONNECT" by (simp add: engine_event_def)
  have match: "Peer_nativeHandle (peer_objs (snd one_connection) 0) = Some (event_peer ?ev)"
    by (simp add: w Peer_nativeHandle_def engine_event_def)
  have later: "next_obj (snd one_connection) \<le> next_obj ?w2"
    "peer_objs ?w2 0 = peer_objs (snd one_connection) 0"
    by simp_all
  have pend: "pending ?w2 = (1, ?ev) # []" "(0 :: int) < 1" by simp_all
  have keep: "\<forall>e s. peer_objs (dispatchConnect ?d e s) = peer_objs s"
    by (simp add: dispatchConnect_def onReceive_def onDisconnect_def onConnect_def
        EventDispatcher_new_def retain_peer_def shared_copy_def split: option.splits)
  have n2: "next_obj ?w2 = 1" by (simp add: w)
  have alive: "\<not> expired w3 0 \<and> \<not> expired w3 1"
    using srv
    by (auto simp: h w service_def processEvent_def fromEnetAddress_def make_shared_Peer_def
        client_host_def Host_new_def quiet_world_def engine_event_def expired_def
        shared_copy_def shared_release_def dispatchConnect_def onReceive_def onDisconnect_def
        onConnect_def EventDispatcher_new_def retain_peer_def)
  have empty: "peers client_host = []" by (simp add: client_host_def Host_new_def)
  have none: "\<And>w4. peerCount client_host w4 = 0" by (simp add: peerCount_eq empty)
  from connect_registers_twice [OF conn disp ev match later pend srv] keep alive empty
  show ?thesis
    unfolding srv n2 using conn by (simp add: engine_event_def w Peer_nativeHandle_def none)
qed

end
